theory Spec2Isabelle
  imports Complex_Main "HOL-Library.Word"
begin

unbundle bit_operations_syntax

section \<open>Common types\<close>

text \<open>
  Failures of the codec routines. \<open>Transport\<close> is a negative return of a HID
  feature-report exchange, \<open>Malformed\<close> is the routines' own \<open>return -1\<close>, and
  \<open>DivideByZero\<close> is the trap of an integer division by zero.
\<close>

datatype error = Transport | Malformed | DivideByZero

text \<open>
  The C \<open>vec3\<close> holds three single-precision floats. The model keeps the exact
  product of the fixed-point wire value and the scale factor as a real number; the
  rounding of the single-precision multiplication is not modelled.
\<close>

record vec3 =
  x :: real
  y :: real
  z :: real

section \<open>Report structures (rift-dk2-hid-reports.h)\<close>

text \<open>
  The packed wire structures, field by field. A field of type \<open>__le16\<close> or
  \<open>__le32\<close> is held as the word that \<open>__le16_to_cpu\<close> or \<open>__le32_to_cpu\<close>
  reads from it.
\<close>

record rift_dk2_config_report =
  cfg_id :: "8 word"
  cfg_echo :: "16 word"
  cfg_flags :: "8 word"
  packet_interval :: "8 word"
  sample_rate :: "16 word"

record rift_dk2_position_report =
  pos_id :: "8 word"
  pos_echo :: "16 word"
  pos_reserved_1 :: "8 word"
  pos0 :: "32 word"
  pos1 :: "32 word"
  pos2 :: "32 word"
  dir0 :: "16 word"
  dir1 :: "16 word"
  dir2 :: "16 word"
  pos_reserved_2 :: "16 word"
  pos_index :: "16 word"
  pos_num :: "16 word"
  pos_type :: "16 word"

record rift_dk2_led_pattern_report =
  pat_id :: "8 word"
  pat_echo :: "16 word"
  pattern_length :: "8 word"
  pattern :: "32 word"
  pat_index :: "16 word"
  pat_num :: "16 word"

section \<open>Device state\<close>

text \<open>
  The fields of \<open>OuvrtRiftDK2\<close> and of its private structure that the codec reads
  or writes. The C \<open>int\<close> fields are integers: every value the code stores in them is
  between 0 and 1000000, so no overflow is possible. The LED arrays are total maps
  from the index; their C bound is declared in leds.h and is not modelled.
\<close>

record rift_dk2 =
  report_rate :: int
  report_interval :: int
  last_sample_timestamp :: "32 word"
  leds_positions :: "nat \<Rightarrow> vec3"
  leds_directions :: "nat \<Rightarrow> vec3"
  leds_patterns :: "nat \<Rightarrow> 32 word"
  leds_num :: int
  imu_position :: vec3

section \<open>The configuration exchange\<close>

text \<open>
  The far end of the control channel, as far as the configuration report goes: the
  configuration the device currently holds, and whether exchanges succeed.
\<close>

record hid_device =
  dev_config :: rift_dk2_config_report
  link_up :: bool

text \<open>
  Modelled from the spec: \<open>hid_get_feature_report\<close> and \<open>hid_send_feature_report\<close>
  live in hidraw.c, which is not among the files covered here. "get issues a fixed-size
  request over the control channel and receives the populated structure synchronously;
  set sends a fully populated structure and expects the device to apply it; both may
  fail at the transport layer."
\<close>

definition hid_get_config :: "hid_device \<Rightarrow> error + rift_dk2_config_report" where
  "hid_get_config dev = (if link_up dev then Inr (dev_config dev) else Inl Transport)"

definition hid_send_config :: "hid_device \<Rightarrow> rift_dk2_config_report \<Rightarrow> error + hid_device" where
  "hid_send_config dev report =
     (if link_up dev then Inr (dev\<lparr>dev_config := report\<rparr>) else Inl Transport)"

text \<open>
  \<open>rift_dk2_get_config\<close>. \<open>sample_rate / (report.packet_interval + 1)\<close> is computed
  in \<open>int\<close> and fits the \<open>uint16_t report_rate\<close>. The code divides 1000000 by that
  rate without a check; where the rate is 0 the division traps.
\<close>

definition rift_dk2_get_config :: "hid_device \<Rightarrow> rift_dk2 \<Rightarrow> (error + unit) \<times> rift_dk2" where
  "rift_dk2_get_config dev rift =
     (case hid_get_config dev of
        Inl e \<Rightarrow> (Inl e, rift)
      | Inr report \<Rightarrow>
          let sample_rate' = uint (sample_rate report);
              report_rate' = sample_rate' div (uint (packet_interval report) + 1)
          in if report_rate' = 0 then (Inl DivideByZero, rift\<lparr>report_rate := report_rate'\<rparr>)
             else (Inr (), rift\<lparr>report_rate := report_rate',
                                report_interval := 1000000 div report_rate'\<rparr>))"

text \<open>
  \<open>rift_dk2_set_report_rate\<close>. The upper clamp comes first and the lower clamp
  second, as in the source. The quotient minus one is an \<open>int\<close> that the assignment
  to the \<open>__u8 packet_interval\<close> truncates to eight bits. The device is returned
  with the report it was sent.
\<close>

definition clamp_report_rate :: "int \<Rightarrow> int \<Rightarrow> int" where
  "clamp_report_rate sample_rate' report_rate' =
     (let r1 = (if report_rate' > sample_rate' then sample_rate' else report_rate');
          r2 = (if r1 < 5 then 5 else r1)
      in r2)"

definition rift_dk2_set_report_rate ::
  "hid_device \<Rightarrow> rift_dk2 \<Rightarrow> int \<Rightarrow> (error + unit) \<times> rift_dk2 \<times> hid_device" where
  "rift_dk2_set_report_rate dev rift requested =
     (case hid_get_config dev of
        Inl e \<Rightarrow> (Inl e, rift, dev)
      | Inr report \<Rightarrow>
          let sample_rate' = uint (sample_rate report);
              report_rate' = clamp_report_rate sample_rate' requested;
              report' = report\<lparr>packet_interval := word_of_int (sample_rate' div report_rate' - 1)\<rparr>
          in (case hid_send_config dev report' of
                Inl e \<Rightarrow> (Inl e, rift, dev)
              | Inr dev' \<Rightarrow>
                  (Inr (), rift\<lparr>report_rate := report_rate',
                                 report_interval := 1000000 div report_rate'\<rparr>, dev')))"

text \<open>The rate the device really reports at: \<open>sample_rate / (packet_interval + 1)\<close>.\<close>

definition achieved_rate :: "hid_device \<Rightarrow> int" where
  "achieved_rate dev =
     uint (sample_rate (dev_config dev)) div (uint (packet_interval (dev_config dev)) + 1)"

text \<open>
  The state \<open>ouvrt_rift_dk2_init\<close> leaves behind (the object is allocated zeroed), and
  a device that holds a given sample rate and packet interval.
\<close>

definition vec3_zero :: vec3 where
  "vec3_zero = \<lparr>x = 0, y = 0, z = 0\<rparr>"

definition ouvrt_rift_dk2_init :: rift_dk2 where
  "ouvrt_rift_dk2_init =
     \<lparr>report_rate = 0, report_interval = 0, last_sample_timestamp = 0,
      leds_positions = (\<lambda>_. vec3_zero), leds_directions = (\<lambda>_. vec3_zero),
      leds_patterns = (\<lambda>_. 0), leds_num = 0, imu_position = vec3_zero\<rparr>"

definition device_with :: "16 word \<Rightarrow> 8 word \<Rightarrow> hid_device" where
  "device_with rate interval =
     \<lparr>dev_config = \<lparr>cfg_id = 2, cfg_echo = 0, cfg_flags = 0,
                     packet_interval = interval, sample_rate = rate\<rparr>,
      link_up = True\<rparr>"

section \<open>Factory positions\<close>

text \<open>
  The device answers the \<open>n\<close>-th \<open>hid_get_feature_report\<close> of an enumeration with
  \<open>feed n\<close>: a transport failure or the next record.
\<close>

type_synonym 'r feed = "nat \<Rightarrow> error + 'r"

text \<open>
  The body of the loop of \<open>rift_dk2_get_positions\<close> between the index check and the
  break: the record's type is cut to the \<open>uint8_t type\<close>, the position is scaled by
  \<open>1e-6f\<close>, and so is the direction (\<open>dir.x = 1e-6f * (int16_t)...\<close>). The record is
  written into the device state at once.
\<close>

definition position_of :: "rift_dk2_position_report \<Rightarrow> vec3" where
  "position_of report =
     \<lparr>x = real_of_int (sint (pos0 report)) / 1000000,
      y = real_of_int (sint (pos1 report)) / 1000000,
      z = real_of_int (sint (pos2 report)) / 1000000\<rparr>"

definition direction_of :: "rift_dk2_position_report \<Rightarrow> vec3" where
  "direction_of report =
     \<lparr>x = real_of_int (sint (dir0 report)) / 1000000,
      y = real_of_int (sint (dir1 report)) / 1000000,
      z = real_of_int (sint (dir2 report)) / 1000000\<rparr>"

definition store_position :: "rift_dk2_position_report \<Rightarrow> rift_dk2 \<Rightarrow> rift_dk2" where
  "store_position report rift =
     (let index = unat (pos_index report);
          type = (ucast (pos_type report) :: 8 word);
          pos = position_of report
      in if type = 0 then
           rift\<lparr>leds_positions := (leds_positions rift)(index := pos),
                leds_directions := (leds_directions rift)(index := direction_of report)\<rparr>
         else if type = 1 then rift\<lparr>imu_position := pos\<rparr>
         else rift)"

text \<open>
  The loop \<open>for (i = 0; ; i++)\<close>. It has no bound of its own: it ends at a malformed
  index, at \<open>i + 1 == num\<close> or at a failed exchange. \<open>num\<close> is read once, from the
  first response.
\<close>

partial_function (option) get_positions_loop ::
  "rift_dk2_position_report feed \<Rightarrow> 16 word \<Rightarrow> nat \<Rightarrow> rift_dk2_position_report \<Rightarrow>
   rift_dk2 \<Rightarrow> ((error + unit) \<times> rift_dk2) option" where
  "get_positions_loop feed num i report rift =
     (if pos_index report \<ge> num then Some (Inl Malformed, rift)
      else if int i + 1 = uint num then Some (Inr (), store_position report rift)
      else case feed (Suc i) of
             Inl e \<Rightarrow> Some (Inl e, store_position report rift)
           | Inr report' \<Rightarrow>
               get_positions_loop feed num (Suc i) report' (store_position report rift))"

text \<open>
  \<open>rift_dk2_get_positions\<close>. \<open>MAX_POSITIONS\<close> comes from a header that is not among
  the files covered here; it is a parameter, and so is \<open>MAX_LEDS\<close> below.
\<close>

definition rift_dk2_get_positions ::
  "nat \<Rightarrow> rift_dk2_position_report feed \<Rightarrow> rift_dk2 \<Rightarrow> ((error + unit) \<times> rift_dk2) option" where
  "rift_dk2_get_positions MAX_POSITIONS feed rift =
     (case feed 0 of
        Inl e \<Rightarrow> Some (Inl e, rift)
      | Inr report \<Rightarrow>
          let num = pos_num report
          in if unat num > MAX_POSITIONS then Some (Inl Malformed, rift)
             else (case get_positions_loop feed num 0 report rift of
                     None \<Rightarrow> None
                   | Some (Inl e, rift') \<Rightarrow> Some (Inl e, rift')
                   | Some (Inr u, rift') \<Rightarrow> Some (Inr (), rift'\<lparr>leds_num := uint num - 1\<rparr>)))"

section \<open>LED blinking patterns\<close>

text \<open>
  The test \<open>(pattern & ~0xaaaaa) != 0x55555\<close> and the conversion of the ten 2-bit
  values into ten bits, statement by statement.
\<close>

definition led_pattern_valid :: "32 word \<Rightarrow> bool" where
  "led_pattern_valid p = (\<not> (p AND NOT 0xaaaaa) \<noteq> 0x55555)"

definition led_pattern_compress :: "32 word \<Rightarrow> 32 word" where
  "led_pattern_compress p0 =
    (let p1 = p0 AND 0xaaaaa;
         p2 = p1 OR drop_bit 1 p1;
         p3 = p2 AND 0x66666;
         p4 = p3 OR drop_bit 2 p3;
         p5 = p4 AND 0xe1e1e;
         p6 = p5 OR drop_bit 4 p5;
         p7 = p6 AND 0xe01fe;
         p8 = p7 OR drop_bit 8 p7
     in drop_bit 1 p8 AND 0x3ff)"

text \<open>What the loop does with one record once its index has passed the check.\<close>

definition led_pattern_decode :: "rift_dk2_led_pattern_report \<Rightarrow> error + 32 word" where
  "led_pattern_decode report =
     (if pattern_length report \<noteq> 10 then Inl Malformed
      else if \<not> led_pattern_valid (pattern report) then Inl Malformed
      else Inr (led_pattern_compress (pattern report)))"

partial_function (option) get_led_patterns_loop ::
  "rift_dk2_led_pattern_report feed \<Rightarrow> 16 word \<Rightarrow> nat \<Rightarrow> rift_dk2_led_pattern_report \<Rightarrow>
   rift_dk2 \<Rightarrow> ((error + unit) \<times> rift_dk2) option" where
  "get_led_patterns_loop feed num i report rift =
     (if pat_index report \<ge> num then Some (Inl Malformed, rift)
      else case led_pattern_decode report of
             Inl e \<Rightarrow> Some (Inl e, rift)
           | Inr signature \<Rightarrow>
               let rift' = rift\<lparr>leds_patterns :=
                             (leds_patterns rift)(unat (pat_index report) := signature)\<rparr>
               in if int i + 1 = uint num then Some (Inr (), rift')
                  else (case feed (Suc i) of
                          Inl e \<Rightarrow> Some (Inl e, rift')
                        | Inr report' \<Rightarrow> get_led_patterns_loop feed num (Suc i) report' rift'))"

definition rift_dk2_get_led_patterns ::
  "nat \<Rightarrow> rift_dk2_led_pattern_report feed \<Rightarrow> rift_dk2 \<Rightarrow> ((error + unit) \<times> rift_dk2) option" where
  "rift_dk2_get_led_patterns MAX_LEDS feed rift =
     (case feed 0 of
        Inl e \<Rightarrow> Some (Inl e, rift)
      | Inr report \<Rightarrow>
          let num = pat_num report
          in if unat num > MAX_LEDS then Some (Inl Malformed, rift)
             else get_led_patterns_loop feed num 0 report rift)"

text \<open>The \<open>k\<close>-th 2-bit symbol of a wire value, counted from the low end.\<close>

definition led_symbol :: "32 word \<Rightarrow> nat \<Rightarrow> 32 word" where
  "led_symbol p k = drop_bit (2 * k) p AND 3"

section \<open>The periodic sensor message\<close>

text \<open>
  The report is read where the caller's buffer lies in memory. Memory is a map from
  byte addresses to bytes; \<open>buf\<close> is the address of the buffer. A read beyond the 64
  bytes of the buffer yields whatever memory holds there.
\<close>

type_synonym memory = "nat \<Rightarrow> 8 word"

definition le16 :: "memory \<Rightarrow> nat \<Rightarrow> 16 word" where
  "le16 mem a = ucast (mem a) OR push_bit 8 (ucast (mem (a + 1)))"

definition le32 :: "memory \<Rightarrow> nat \<Rightarrow> 32 word" where
  "le32 mem a =
     ucast (mem a) OR push_bit 8 (ucast (mem (a + 1))) OR
     push_bit 16 (ucast (mem (a + 2))) OR push_bit 24 (ucast (mem (a + 3)))"

definition be32 :: "memory \<Rightarrow> nat \<Rightarrow> 32 word" where
  "be32 mem a =
     push_bit 24 (ucast (mem a)) OR push_bit 16 (ucast (mem (a + 1))) OR
     push_bit 8 (ucast (mem (a + 2))) OR ucast (mem (a + 3))"

text \<open>
  \<open>unpack_3x21bit\<close>. The parameter \<open>buf\<close> has the type \<open>__be64 *\<close>, so the
  expression \<open>buf + 4\<close> in \<open>__be32_to_cpup((__be32 *)(buf + 4))\<close> advances by four
  64-bit elements: the second word is read 32 bytes after the first, not 4. The
  shifts of the \<open>int32_t\<close> values are arithmetic.
\<close>

definition unpack_3x21bit :: "memory \<Rightarrow> nat \<Rightarrow> vec3" where
  "unpack_3x21bit mem buf =
     (let xy = be32 mem buf;
          yz = be32 mem (buf + 4 * 8)
      in \<lparr>x = real_of_int (sint (signed_drop_bit 11 xy)) / 10000,
          y = real_of_int (sint (signed_drop_bit 11 (push_bit 21 xy OR drop_bit 11 yz))) / 10000,
          z = real_of_int (sint (signed_drop_bit 11 (push_bit 10 yz))) / 10000\<rparr>)"

text \<open>
  The unpacking as the specification words it, for comparison: three signed 21-bit
  fields packed big-endian across the 8 bytes at \<open>buf\<close>, the middle one straddling the
  two 32-bit half-words, each sign-extended and scaled by 1e-4.
\<close>

definition unpack_3x21bit_spec :: "memory \<Rightarrow> nat \<Rightarrow> vec3" where
  "unpack_3x21bit_spec mem buf =
     (let xy = be32 mem buf;
          yz = be32 mem (buf + 4)
      in \<lparr>x = real_of_int (sint (signed_drop_bit 11 xy)) / 10000,
          y = real_of_int (sint (signed_drop_bit 11 (push_bit 21 xy OR drop_bit 11 yz))) / 10000,
          z = real_of_int (sint (signed_drop_bit 11 (push_bit 10 yz))) / 10000\<rparr>)"

record imu_sample =
  temperature :: real
  time :: real
  acceleration :: vec3
  angular_velocity :: vec3
  magnetic_field :: vec3

text \<open>What the device thread does that is visible outside: prints, commands, samples.\<close>

datatype event =
    Send_keepalive
  | Print_resending
  | Print_read_error
  | Print_invalid_report int
  | Print_samples int int
  | Imu_fifo_in imu_sample

text \<open>
  \<open>rift_dk2_decode_sensor_message\<close>. The packed message is 64 bytes long; the fields
  are read at their offsets. \<open>dt\<close> is the difference of the two \<open>uint32_t\<close>
  timestamps, which wraps, stored in an \<open>int32_t\<close>. Each pass of the final loop hands
  the sample to \<open>debug_imu_fifo_in\<close>.
\<close>

definition rift_dk2_decode_sensor_message ::
  "rift_dk2 \<Rightarrow> memory \<Rightarrow> nat \<Rightarrow> nat \<Rightarrow> rift_dk2 \<times> event list" where
  "rift_dk2_decode_sensor_message rift mem buf len =
     (if len < 64 then (rift, [])
      else
        let num_samples = mem (buf + 3);
            temperature' = le16 mem (buf + 6);
            sample_timestamp = le32 mem (buf + 8);
            dt = sint (sample_timestamp - last_sample_timestamp rift);
            rift' = rift\<lparr>last_sample_timestamp := sample_timestamp\<rparr>;
            prints =
              (if dt < report_interval rift - 1 \<or> dt > report_interval rift + 1 \<or>
                  1000 * uint num_samples \<noteq> report_interval rift
               then [Print_samples (uint num_samples) dt] else []);
            mag = \<lparr>x = real_of_int (sint (le16 mem (buf + 44))) / 10000,
                   y = real_of_int (sint (le16 mem (buf + 46))) / 10000,
                   z = real_of_int (sint (le16 mem (buf + 48))) / 10000\<rparr>;
            num_samples' = (if num_samples > 1 then 2 else (1::nat));
            sample = (\<lambda>i.
              \<lparr>temperature = real_of_int (sint temperature') / 100,
               time = real_of_int (uint sample_timestamp) / 1000000,
               acceleration = unpack_3x21bit mem (buf + 12 + 16 * i),
               angular_velocity = unpack_3x21bit mem (buf + 20 + 16 * i),
               magnetic_field = mag\<rparr>)
        in (rift', prints @ map (\<lambda>i. Imu_fifo_in (sample i)) [0..<num_samples']))"

text \<open>The samples and the prints among a list of events.\<close>

fun samples_of :: "event list \<Rightarrow> imu_sample list" where
  "samples_of [] = []"
| "samples_of (Imu_fifo_in s # es) = s # samples_of es"
| "samples_of (e # es) = samples_of es"

fun prints_of :: "event list \<Rightarrow> (int \<times> int) list" where
  "prints_of [] = []"
| "prints_of (Print_samples n dt # es) = (n, dt) # prints_of es"
| "prints_of (e # es) = prints_of es"

text \<open>Memory that holds the given bytes from address 0 on, and zeros after them.\<close>

definition memory_of :: "8 word list \<Rightarrow> memory" where
  "memory_of bytes a = (if a < length bytes then bytes ! a else 0)"

text \<open>
  The triple (1234, -5678, 9) as three 21-bit fields in 8 bytes, big-endian:
  \<open>1234 * 2^43 + (2^21 - 5678) * 2^22 + 9 * 2\<close>.
\<close>

definition packed_triple :: "8 word list" where
  "packed_triple = [0x00, 0x26, 0x97, 0xFA, 0x74, 0x80, 0x00, 0x12]"

text \<open>
  A 64-byte report with the given number of samples, sample count and timestamp,
  whose first acceleration field is the packed triple; all other bytes are zero.
\<close>

definition sensor_report :: "8 word \<Rightarrow> 32 word \<Rightarrow> 8 word list" where
  "sensor_report num_samples timestamp =
     [0x0b, 0, 0, num_samples, ucast num_samples, 0, 0, 0,
      ucast timestamp, ucast (drop_bit 8 timestamp), ucast (drop_bit 16 timestamp),
      ucast (drop_bit 24 timestamp)]
     @ packed_triple @ replicate 44 0"

section \<open>The device thread\<close>

text \<open>
  One wake-up of the loop of \<open>rift_dk2_thread\<close>: what \<open>poll\<close> returned, and what
  \<open>read\<close> returned and left in the buffer, had it been called.
\<close>

record wakeup =
  poll_ret :: int
  read_ret :: int
  buf_after_read :: memory

record thread_state =
  self :: rift_dk2
  count :: int

datatype flow = Continue | Break

text \<open>The event bits of Linux' poll.h.\<close>

definition POLLIN :: "16 word" where "POLLIN = 0x001"
definition POLLERR :: "16 word" where "POLLERR = 0x008"
definition POLLHUP :: "16 word" where "POLLHUP = 0x010"
definition POLLNVAL :: "16 word" where "POLLNVAL = 0x020"

text \<open>
  The body of the \<open>while (dev->active)\<close> loop. The test before the read looks at
  \<open>fds.events\<close>, which the loop has just set to \<open>POLLIN\<close>.
\<close>

definition rift_dk2_thread_iteration ::
  "thread_state \<Rightarrow> wakeup \<Rightarrow> flow \<times> thread_state \<times> event list" where
  "rift_dk2_thread_iteration st w =
     (let ret = poll_ret w in
      if ret = - 1 \<or> ret = 0 \<or> count st > 9 * report_rate (self st) then
        (Continue, st\<lparr>count := 0\<rparr>,
         (if ret = - 1 \<or> ret = 0 then [Print_resending] else []) @ [Send_keepalive])
      else if POLLIN AND (POLLERR OR POLLHUP OR POLLNVAL) \<noteq> 0 then (Break, st, [])
      else
        let ret = read_ret w in
        if ret = - 1 then (Continue, st, [Print_read_error])
        else if ret < 64 then (Continue, st, [Print_invalid_report ret])
        else
          (case rift_dk2_decode_sensor_message (self st) (buf_after_read w) 0 64 of
             (rift', events) \<Rightarrow> (Continue, st\<lparr>self := rift', count := count st + 1\<rparr>, events)))"

text \<open>
  The loop over the wake-ups that happen while the device is active: the flag
  \<open>dev->active\<close> is cleared by another thread, so the run is given as the list of
  wake-ups before that.
\<close>

fun rift_dk2_thread_loop :: "thread_state \<Rightarrow> wakeup list \<Rightarrow> thread_state \<times> event list" where
  "rift_dk2_thread_loop st [] = (st, [])"
| "rift_dk2_thread_loop st (w # ws) =
     (case rift_dk2_thread_iteration st w of
        (Break, st', events) \<Rightarrow> (st', events)
      | (Continue, st', events) \<Rightarrow>
          (case rift_dk2_thread_loop st' ws of (st'', events') \<Rightarrow> (st'', events @ events')))"

definition rift_dk2_thread :: "rift_dk2 \<Rightarrow> wakeup list \<Rightarrow> thread_state \<times> event list" where
  "rift_dk2_thread rift ws =
     (case rift_dk2_thread_loop \<lparr>self = rift, count = 0\<rparr> ws of
        (st, events) \<Rightarrow> (st, Send_keepalive # events))"

text \<open>A wake-up with a full report, and one where \<open>read\<close> fails.\<close>

definition full_report :: wakeup where
  "full_report = \<lparr>poll_ret = 1, read_ret = 64, buf_after_read = memory_of (sensor_report 2 2000)\<rparr>"

definition failed_read :: wakeup where
  "failed_read = full_report\<lparr>read_ret := - 1\<rparr>"

section \<open>The device registry (ouvrtd.c)\<close>

text \<open>
  A device as far as \<open>ouvrtd_device_add\<close> looks at it: its node, its serial (\<open>None\<close> for
  \<open>NULL\<close>), the class of the object (what \<open>OUVRT_IS_RIFT_DK2\<close> and \<open>OUVRT_IS_CAMERA_DK2\<close>
  test) and the tracker it points to. Tracker objects are named by numbers.
\<close>

datatype device_class = Rift_DK2 | Camera_DK2 | Other_device

record ouvrt_device =
  devnode :: string
  serial :: "string option"
  device_class :: device_class
  tracker :: "nat option"

text \<open>
  \<open>g_list_find_custom\<close> with \<open>ouvrt_device_cmp_serial\<close>: the position of the first
  device in the list whose serial equals the given one.
\<close>

fun find_serial :: "ouvrt_device list \<Rightarrow> string \<Rightarrow> nat option" where
  "find_serial [] s = None"
| "find_serial (d # ds) s =
     (if serial d = Some s then Some 0 else map_option Suc (find_serial ds s))"

text \<open>
  \<open>ouvrtd_device_add\<close> from the point where the constructor has returned the device
  \<open>d\<close>; \<open>sysfs_serial\<close> is the serial attribute of the USB device. The camera among the
  new device and the one found is made to point to the tracker of the Rift. The call
  of \<open>ouvrt_device_start\<close> that follows is defined in device.c, which is not covered
  here, and is left out.
\<close>

definition ouvrtd_device_add ::
  "string option \<Rightarrow> ouvrt_device \<Rightarrow> ouvrt_device list \<Rightarrow> ouvrt_device list" where
  "ouvrtd_device_add sysfs_serial d0 device_list =
     (let d = (if sysfs_serial \<noteq> None \<and> serial d0 = None
               then d0\<lparr>serial := sysfs_serial\<rparr> else d0)
      in case serial d of
           None \<Rightarrow> device_list @ [d]
         | Some s \<Rightarrow>
             (case find_serial device_list s of
                None \<Rightarrow> device_list @ [d]
              | Some i \<Rightarrow>
                  let link = device_list ! i
                  in if device_class d = Rift_DK2 \<and> device_class link = Camera_DK2
                     then device_list[i := link\<lparr>tracker := tracker d\<rparr>] @ [d]
                     else if device_class d = Camera_DK2 \<and> device_class link = Rift_DK2
                     then device_list @ [d\<lparr>tracker := tracker link\<rparr>]
                     else device_list @ [d]))"

text \<open>
  A Rift and its camera as their constructors return them (the serial is given to
  both by sysfs), and a device that is registered with the serial ABC: a second video
  node of a camera.
\<close>

definition the_rift :: ouvrt_device where
  "the_rift = \<lparr>devnode = ''/dev/hidraw0'', serial = None, device_class = Rift_DK2,
                tracker = Some 1\<rparr>"

definition the_camera :: ouvrt_device where
  "the_camera = \<lparr>devnode = ''/dev/video0'', serial = None, device_class = Camera_DK2,
                  tracker = None\<rparr>"

definition third_device :: ouvrt_device where
  "third_device = \<lparr>devnode = ''/dev/video1'', serial = Some ''ABC'',
                    device_class = Camera_DK2, tracker = None\<rparr>"

section \<open>Vocabulary for the sensor message and thread properties\<close>

text \<open>The sample that pass \<open>i\<close> of the final loop of the decoder hands over.\<close>

definition decoded_sample :: "memory \<Rightarrow> nat \<Rightarrow> nat \<Rightarrow> imu_sample" where
  "decoded_sample mem buf i =
     \<lparr>temperature = real_of_int (sint (le16 mem (buf + 6))) / 100,
      time = real_of_int (uint (le32 mem (buf + 8))) / 1000000,
      acceleration = unpack_3x21bit mem (buf + 12 + 16 * i),
      angular_velocity = unpack_3x21bit mem (buf + 20 + 16 * i),
      magnetic_field =
        \<lparr>x = real_of_int (sint (le16 mem (buf + 44))) / 10000,
         y = real_of_int (sint (le16 mem (buf + 46))) / 10000,
         z = real_of_int (sint (le16 mem (buf + 48))) / 10000\<rparr>\<rparr>"

text \<open>
  The drift test as the specification words it: the time delta deviates from the
  report interval times the sample count by more than one unit.
\<close>

definition drift_spec :: "int \<Rightarrow> int \<Rightarrow> int \<Rightarrow> bool" where
  "drift_spec interval samples dt = (\<bar>dt - interval * samples\<bar> > 1)"

text \<open>The device state after the rate has been negotiated to 500 Hz.\<close>

definition negotiated :: rift_dk2 where
  "negotiated = ouvrt_rift_dk2_init\<lparr>report_rate := 500, report_interval := 2000\<rparr>"

text \<open>A wake-up where \<open>poll\<close> reports data and \<open>read\<close> returns a full report.\<close>

definition full_wakeup :: "wakeup \<Rightarrow> bool" where
  "full_wakeup w = (poll_ret w \<noteq> - 1 \<and> poll_ret w \<noteq> 0 \<and> 64 \<le> read_ret w)"

section \<open>Vocabulary for the enumeration properties\<close>

text \<open>
  A response is acceptable to the positions loop when the exchange succeeded and its
  index is below the count; to the pattern loop when moreover the pattern length is 10
  and the pattern passes the test.
\<close>

definition position_ok :: "16 word \<Rightarrow> error + rift_dk2_position_report \<Rightarrow> bool" where
  "position_ok num resp = (case resp of Inl e \<Rightarrow> False | Inr r \<Rightarrow> pos_index r < num)"

definition pattern_ok :: "16 word \<Rightarrow> error + rift_dk2_led_pattern_report \<Rightarrow> bool" where
  "pattern_ok num resp =
     (case resp of Inl e \<Rightarrow> False
      | Inr r \<Rightarrow> pat_index r < num \<and> pattern_length r = 10 \<and> led_pattern_valid (pattern r))"

text \<open>The assignment \<open>rift->leds.patterns[index] = pattern\<close> for an accepted record.\<close>

definition store_pattern :: "rift_dk2_led_pattern_report \<Rightarrow> rift_dk2 \<Rightarrow> rift_dk2" where
  "store_pattern r rift =
     rift\<lparr>leds_patterns :=
            (leds_patterns rift)(unat (pat_index r) := led_pattern_compress (pattern r))\<rparr>"

text \<open>The device state after the responses \<open>i, ..., k - 1\<close> have been written, in order.\<close>

definition stored_positions ::
  "rift_dk2_position_report feed \<Rightarrow> nat \<Rightarrow> nat \<Rightarrow> rift_dk2 \<Rightarrow> rift_dk2" where
  "stored_positions feed i k rift = fold (\<lambda>j. store_position (projr (feed j))) [i..<k] rift"

definition stored_patterns ::
  "rift_dk2_led_pattern_report feed \<Rightarrow> nat \<Rightarrow> nat \<Rightarrow> rift_dk2 \<Rightarrow> rift_dk2" where
  "stored_patterns feed i k rift = fold (\<lambda>j. store_pattern (projr (feed j))) [i..<k] rift"

text \<open>
  Two position records for a device that announces two records: the first is LED 0
  at x = 1 m, the second carries the index 2.
\<close>

definition first_position :: rift_dk2_position_report where
  "first_position =
     \<lparr>pos_id = 15, pos_echo = 0, pos_reserved_1 = 0,
      pos0 = 1000000, pos1 = 0, pos2 = 0, dir0 = 10000, dir1 = 0, dir2 = 0,
      pos_reserved_2 = 0, pos_index = 0, pos_num = 2, pos_type = 0\<rparr>"

definition stray_position :: rift_dk2_position_report where
  "stray_position = first_position\<lparr>pos_index := 2\<rparr>"

definition stray_feed :: "rift_dk2_position_report feed" where
  "stray_feed n = (if n = 0 then Inr first_position else Inr stray_position)"

text \<open>A feed of position records whose index counts up.\<close>

definition steady_feed :: "rift_dk2_position_report feed" where
  "steady_feed n = Inr (first_position\<lparr>pos_index := of_nat n\<rparr>)"

text \<open>Two pattern records, all LEDs bright, and a feed of them.\<close>

definition bright_pattern :: "16 word \<Rightarrow> rift_dk2_led_pattern_report" where
  "bright_pattern index =
     \<lparr>pat_id = 16, pat_echo = 0, pattern_length = 10, pattern = 0xFFFFF,
      pat_index = index, pat_num = 2\<rparr>"

definition bright_feed :: "rift_dk2_led_pattern_report feed" where
  "bright_feed n = Inr (bright_pattern (of_nat n))"

text \<open>A feed whose second record has a pattern with a symbol 2.\<close>

definition smudged_feed :: "rift_dk2_led_pattern_report feed" where
  "smudged_feed n =
     (if n = 0 then Inr (bright_pattern 0) else Inr ((bright_pattern 1)\<lparr>pattern := 0xFFFFE\<rparr>))"

section \<open>Properties of the report-rate negotiation\<close>

lemma clamp_report_rate_ge5: "5 \<le> clamp_report_rate s r"
  by (simp add: clamp_report_rate_def)

lemma clamp_report_rate_le: "5 \<le> s \<Longrightarrow> clamp_report_rate s r \<le> s"
  by (simp add: clamp_report_rate_def)

lemma int_div_mult_le:
  fixes a b :: int
  assumes "0 < b"
  shows "a div b * b \<le> a"
proof -
  have "a div b * b + a mod b = a" by (rule div_mult_mod_eq)
  moreover have "0 \<le> a mod b" using assms by simp
  ultimately show ?thesis by linarith
qed

lemma int_le_div_iff:
  fixes a b c :: int
  assumes "0 < b" "c * b \<le> a"
  shows "c \<le> a div b"
proof -
  have "(c * b) div b \<le> a div b" using assms by (intro zdiv_mono1)
  then show ?thesis using assms by simp
qed

lemma div_div_ge:
  fixes s c :: int
  assumes "0 < c" "c \<le> s"
  shows "c \<le> s div (s div c)"
proof -
  have q: "0 < s div c" using assms by (simp add: pos_imp_zdiv_pos_iff)
  have "s div c * c \<le> s" using assms by (intro int_div_mult_le)
  then have "c * (s div c) \<le> s" by (simp add: mult.commute)
  then show ?thesis using q by (intro int_le_div_iff)
qed

lemma div_div_le:
  fixes s c :: int
  assumes "0 < c" "c \<le> s"
  shows "s div (s div c) \<le> s"
  using assms int_div_le_self by auto

lemma div_div_div:
  fixes s c :: int
  assumes "0 < c" "c \<le> s"
  shows "s div (s div (s div c)) = s div c"
proof -
  let ?q = "s div c" and ?a = "s div (s div c)"
  have q: "0 < ?q" using assms by (simp add: pos_imp_zdiv_pos_iff)
  have ca: "c \<le> ?a" using assms by (rule div_div_ge)
  then have a: "0 < ?a" using assms by linarith
  have "s div ?a \<le> s div c" using assms ca by (intro zdiv_mono2) auto
  moreover have "?q \<le> s div ?a"
  proof -
    have "?a * ?q \<le> s" using q by (intro int_div_mult_le)
    then have "?q * ?a \<le> s" by (simp add: mult.commute)
    then show ?thesis using a by (intro int_le_div_iff)
  qed
  ultimately show ?thesis by linarith
qed

lemma set_report_rate_ok:
  assumes "link_up dev"
  shows "rift_dk2_set_report_rate dev rift r =
    (Inr (),
     rift\<lparr>report_rate := clamp_report_rate (uint (sample_rate (dev_config dev))) r,
           report_interval := 1000000 div clamp_report_rate (uint (sample_rate (dev_config dev))) r\<rparr>,
     dev\<lparr>dev_config := (dev_config dev)\<lparr>packet_interval :=
        word_of_int (uint (sample_rate (dev_config dev)) div
           clamp_report_rate (uint (sample_rate (dev_config dev))) r - 1)\<rparr>\<rparr>)"
  using assms
  by (simp add: rift_dk2_set_report_rate_def hid_get_config_def hid_send_config_def Let_def)

lemma uint_packet_interval:
  fixes q :: int
  assumes "1 \<le> q" "q \<le> 256"
  shows "uint (word_of_int (q - 1) :: 8 word) = q - 1"
  using assms by (subst uint_word_of_int_eq) (simp add: take_bit_int_eq_self)

text \<open>
  C1, as stated, fails: with a sample rate of 1000 Hz and a request of 300 Hz the code
  sends packet interval 2, so the device reports at 1000 / 3 = 333 Hz, but the rate
  the code stores is the clamped request, 300.
\<close>

theorem set_report_rate_stores_request_counterexample:
  "fst (rift_dk2_set_report_rate (device_with 1000 0) ouvrt_rift_dk2_init 300) = Inr () \<and>
   report_rate
     (fst (snd (rift_dk2_set_report_rate (device_with 1000 0) ouvrt_rift_dk2_init 300))) = 300 \<and>
   achieved_rate
     (snd (snd (rift_dk2_set_report_rate (device_with 1000 0) ouvrt_rift_dk2_init 300))) = 333"
  by (simp add: rift_dk2_set_report_rate_def hid_get_config_def hid_send_config_def
      device_with_def ouvrt_rift_dk2_init_def clamp_report_rate_def achieved_rate_def Let_def)

text \<open>
  C1 (amended): when the exchanges succeed, \<open>set_report_rate(r)\<close> clamps the request
  (down to the sample rate, then up to 5), sends the packet interval
  \<open>sample_rate / clamped - 1\<close> truncated to eight bits, and stores the clamped request,
  not the achieved rate. The stored rate is at least 5, and at most the sample rate when
  the sample rate is at least 5. When moreover \<open>sample_rate / clamped\<close> is at most 256,
  the packet interval the device then holds is exactly \<open>sample_rate / stored - 1\<close>,
  which is also \<open>sample_rate / achieved - 1\<close>; the achieved rate
  \<open>sample_rate / (packet_interval + 1)\<close> lies between the stored rate and the sample
  rate, and it is what a following \<open>get_config\<close> stores.
\<close>

theorem set_report_rate_stores_clamped_request:
  assumes up: "link_up dev"
  shows "case rift_dk2_set_report_rate dev rift r of (res, rift', dev') \<Rightarrow>
     (let s = uint (sample_rate (dev_config dev)); c = clamp_report_rate s r in
      res = Inr () \<and> report_rate rift' = c \<and> 5 \<le> c \<and> (5 \<le> s \<longrightarrow> c \<le> s) \<and>
      sample_rate (dev_config dev') = sample_rate (dev_config dev) \<and>
      packet_interval (dev_config dev') = word_of_int (s div c - 1) \<and>
      (5 \<le> s \<and> s div c \<le> 256 \<longrightarrow>
         uint (packet_interval (dev_config dev')) = s div report_rate rift' - 1 \<and>
         report_rate rift' \<le> achieved_rate dev' \<and> achieved_rate dev' \<le> s \<and>
         uint (packet_interval (dev_config dev')) = s div achieved_rate dev' - 1 \<and>
         report_rate (snd (rift_dk2_get_config dev' rift')) = achieved_rate dev'))"
proof -
  define s where "s = uint (sample_rate (dev_config dev))"
  define c where "c = clamp_report_rate s r"
  have c5: "5 \<le> c" unfolding c_def by (rule clamp_report_rate_ge5)
  have cs: "5 \<le> s \<Longrightarrow> c \<le> s" unfolding c_def by (rule clamp_report_rate_le)
  have tail: "uint (word_of_int (s div c - 1) :: 8 word) = s div c - 1 \<and>
         c \<le> s div (uint (word_of_int (s div c - 1) :: 8 word) + 1) \<and>
         s div (uint (word_of_int (s div c - 1) :: 8 word) + 1) \<le> s \<and>
         uint (word_of_int (s div c - 1) :: 8 word) =
           s div (s div (uint (word_of_int (s div c - 1) :: 8 word) + 1)) - 1"
    if h: "5 \<le> s" "s div c \<le> 256"
  proof -
    have c0: "0 < c" using c5 by linarith
    have le: "c \<le> s" using h cs by simp
    have q1: "1 \<le> s div c"
      using c0 le by (simp add: pos_imp_zdiv_pos_iff int_one_le_iff_zero_less)
    have u: "uint (word_of_int (s div c - 1) :: 8 word) = s div c - 1"
      using q1 h(2) by (rule uint_packet_interval)
    show ?thesis
      unfolding u
      using div_div_ge [OF c0 le] div_div_le [OF c0 le] div_div_div [OF c0 le]
      by simp
  qed
  have nz: "s div (uint (word_of_int (s div c - 1) :: 8 word) + 1) \<noteq> 0"
    if h: "5 \<le> s" "s div c \<le> 256"
    using tail [OF h] c5 by linarith
  show ?thesis
    using up c5 cs tail nz
    by (auto simp: set_report_rate_ok [OF up] s_def [symmetric] c_def [symmetric] Let_def
        achieved_rate_def rift_dk2_get_config_def hid_get_config_def)
qed

theorem set_report_rate_stores_clamped_request_witness:
  "link_up (device_with 1000 0) \<and>
   (case rift_dk2_set_report_rate (device_with 1000 0) ouvrt_rift_dk2_init 300 of
      (res, rift', dev') \<Rightarrow>
        res = Inr () \<and> report_rate rift' = 300 \<and>
        uint (packet_interval (dev_config dev')) = 2 \<and> achieved_rate dev' = 333 \<and>
        report_rate (snd (rift_dk2_get_config dev' rift')) = 333)"
  using set_report_rate_stores_clamped_request [where dev = "device_with 1000 0" and rift = ouvrt_rift_dk2_init and r = 300]
  by (simp add: rift_dk2_set_report_rate_def hid_get_config_def hid_send_config_def
      rift_dk2_get_config_def
      device_with_def ouvrt_rift_dk2_init_def clamp_report_rate_def achieved_rate_def Let_def)

text \<open>
  C8, as stated, fails for \<open>get_config\<close>: a device that reports a sample rate of 1000
  and a packet interval of 255 makes the code store the rate 1000 / 256 = 3, below 5.
\<close>

theorem get_config_rate_below_5_counterexample:
  "fst (rift_dk2_get_config (device_with 1000 255) ouvrt_rift_dk2_init) = Inr () \<and>
   report_rate (snd (rift_dk2_get_config (device_with 1000 255) ouvrt_rift_dk2_init)) = 3 \<and>
   \<not> 5 \<le> report_rate (snd (rift_dk2_get_config (device_with 1000 255) ouvrt_rift_dk2_init))"
  by (simp add: rift_dk2_get_config_def hid_get_config_def device_with_def
      ouvrt_rift_dk2_init_def Let_def)

text \<open>
  C8 (amended): when the exchanges succeed, \<open>set_report_rate\<close> leaves a stored
  report rate in \<open>[5, max 5 sample_rate]\<close> (so in \<open>[5, sample_rate]\<close> when the sample
  rate is at least 5) and \<open>get_config\<close>, when the packet interval is below the sample
  rate, leaves the stored rate \<open>sample_rate / (packet_interval + 1)\<close>, which lies in
  \<open>[1, sample_rate]\<close> and is not raised to 5. After either, the stored report interval
  is \<open>1000000 / report_rate\<close> by integer division.
\<close>

theorem report_config_after_update:
  assumes up: "link_up dev"
  shows "(case rift_dk2_set_report_rate dev rift r of (res, rift', dev') \<Rightarrow>
            res = Inr () \<and> 5 \<le> report_rate rift' \<and>
            report_rate rift' \<le> max 5 (uint (sample_rate (dev_config dev))) \<and>
            report_interval rift' = 1000000 div report_rate rift') \<and>
         (uint (packet_interval (dev_config dev)) < uint (sample_rate (dev_config dev)) \<longrightarrow>
            (case rift_dk2_get_config dev rift of (res, rift') \<Rightarrow>
               res = Inr () \<and>
               report_rate rift' =
                 uint (sample_rate (dev_config dev)) div (uint (packet_interval (dev_config dev)) + 1) \<and>
               1 \<le> report_rate rift' \<and>
               report_rate rift' \<le> uint (sample_rate (dev_config dev)) \<and>
               report_interval rift' = 1000000 div report_rate rift'))"
proof -
  let ?s = "uint (sample_rate (dev_config dev))"
  let ?p = "uint (packet_interval (dev_config dev))"
  have set_part: "5 \<le> clamp_report_rate ?s r \<and> clamp_report_rate ?s r \<le> max 5 ?s"
    by (auto simp: clamp_report_rate_def Let_def)
  have get_part: "1 \<le> ?s div (?p + 1) \<and> ?s div (?p + 1) \<le> ?s" if lt: "?p < ?s"
  proof -
    have p0: "0 < ?p + 1" by simp
    have "0 < ?s div (?p + 1)" using lt p0 by (simp add: pos_imp_zdiv_pos_iff)
    moreover have "0 < ?s"
      using lt uint_ge_0 [of "packet_interval (dev_config dev)"] by linarith
    then have "?s div (?p + 1) \<le> ?s" by (rule int_div_le_self)
    ultimately show ?thesis by linarith
  qed
  show ?thesis
    using up set_part get_part
    by (auto simp: set_report_rate_ok [OF up] rift_dk2_get_config_def hid_get_config_def Let_def)
qed

theorem report_config_after_update_witness:
  "link_up (device_with 1000 1) \<and>
   uint (packet_interval (dev_config (device_with 1000 1))) <
     uint (sample_rate (dev_config (device_with 1000 1))) \<and>
   (case rift_dk2_set_report_rate (device_with 1000 1) ouvrt_rift_dk2_init 50 of
      (res, rift', dev') \<Rightarrow>
        res = Inr () \<and> report_rate rift' = 50 \<and> report_interval rift' = 20000) \<and>
   (case rift_dk2_get_config (device_with 1000 1) ouvrt_rift_dk2_init of
      (res, rift') \<Rightarrow>
        res = Inr () \<and> report_rate rift' = 500 \<and> report_interval rift' = 2000)"
  using report_config_after_update [where dev = "device_with 1000 1" and rift = ouvrt_rift_dk2_init and r = 50]
  by (simp add: rift_dk2_set_report_rate_def hid_get_config_def hid_send_config_def
      rift_dk2_get_config_def
      device_with_def ouvrt_rift_dk2_init_def clamp_report_rate_def Let_def)

section \<open>Properties of the LED pattern test and conversion\<close>

lemma word32_eq_iff_bits:
  fixes a b :: "32 word"
  shows "a = b \<longleftrightarrow> (\<forall>n<32. bit a n = bit b n)"
proof
  assume "\<forall>n<32. bit a n = bit b n"
  then show "a = b" by (intro bit_word_eqI) simp
qed simp

lemma upt10: "[0..<10] = [0, 1, 2, 3, 4, 5, 6, 7, 8, 9 :: nat]"
  by (simp add: upt_rec)

lemma upt32:
  "[0..<32] =
     [0, 1, 2, 3, 4, 5, 6, 7, 8, 9, 10, 11, 12, 13, 14, 15, 16, 17, 18, 19, 20, 21, 22, 23,
      24, 25, 26, 27, 28, 29, 30, 31 :: nat]"
  by (simp add: upt_rec)

lemma all_less_32:
  "(\<forall>n<32. P (n::nat)) \<longleftrightarrow> list_all P [0..<32]"
  by (auto simp: list_all_iff)

text \<open>
  Equality of 32-bit words is equality of their 32 bits; with that, the symbol test
  and the pattern test become statements about single bits.
\<close>

lemma sym_iff: "(led_symbol p k = 1 \<or> led_symbol p k = 3) \<longleftrightarrow> bit p (2 * k)"
  unfolding led_symbol_def word32_eq_iff_bits all_less_32 upt32
  by (auto simp add: bit_simps)

lemma valid_iff:
  "led_pattern_valid p \<longleftrightarrow>
     list_all (\<lambda>k. led_symbol p k = 1 \<or> led_symbol p k = 3) [0..<10] \<and> drop_bit 20 p = 0"
  unfolding sym_iff upt10
  unfolding led_pattern_valid_def word32_eq_iff_bits all_less_32 upt32
  by (auto simp add: bit_simps dest: bit_imp_le_length)

lemma Suc_towers: "Suc (Suc (Suc 0)) = 3" "Suc (Suc (Suc (Suc (Suc 0)))) = 5"
  by simp_all

lemma compress_bits:
  "led_pattern_valid p \<Longrightarrow>
   list_all (\<lambda>k. bit (led_pattern_compress p) k \<longleftrightarrow> led_symbol p k = 3) [0..<10]"
  unfolding led_pattern_valid_def upt10 list.pred_inject led_symbol_def word32_eq_iff_bits
    all_less_32 upt32
  by (simp add: led_pattern_compress_def Let_def bit_simps Suc_towers)

lemma compress_lt: "led_pattern_compress p < 1024"
proof -
  have "led_pattern_compress p \<le> 0x3ff"
    unfolding led_pattern_compress_def Let_def by (rule word_and_le1)
  then show ?thesis by (simp add: word_le_nat_alt word_less_nat_alt)
qed

section \<open>Properties of the enumeration loops\<close>

lemma stored_positions_step:
  "i < k \<Longrightarrow> stored_positions feed i k rift = stored_positions feed (Suc i) k (store_position (projr (feed i)) rift)"
  by (simp add: stored_positions_def upt_conv_Cons)

lemma stored_positions_empty: "stored_positions feed k k rift = rift"
  by (simp add: stored_positions_def)

lemma leds_num_store_position: "leds_num (store_position r rift) = leds_num rift"
  by (simp add: store_position_def Let_def)

lemma position_okD: "position_ok num resp \<Longrightarrow> \<exists>r. resp = Inr r \<and> \<not> num \<le> pos_index r"
  by (cases resp) (simp_all add: position_ok_def)

lemma positions_loop_abort_any:
  assumes "i \<le> k" "k < unat num" "\<not> position_ok num (feed k)" "feed i = Inr report"
  shows "\<exists>e st. get_positions_loop feed num i report rift = Some (Inl e, st) \<and>
                leds_num st = leds_num rift"
  using assms
proof (induction "k - i" arbitrary: i report rift)
  case 0
  then have "num \<le> pos_index report" by (simp add: position_ok_def)
  then show ?case by (subst get_positions_loop.simps) simp
next
  case (Suc d)
  then have ik: "i < k" by simp
  have ne: "int i + 1 \<noteq> uint num"
    using ik Suc.prems(2) uint_nat [of num] by linarith
  show ?case
  proof (cases "pos_index report \<ge> num")
    case True
    then show ?thesis by (subst get_positions_loop.simps) simp
  next
    case False
    show ?thesis
    proof (cases "feed (Suc i)")
      case (Inl e)
      with False ne show ?thesis
        by (subst get_positions_loop.simps) (simp add: leds_num_store_position)
    next
      case (Inr r')
      have d: "d = k - Suc i" using Suc.hyps(2) by simp
      have le: "Suc i \<le> k" using ik by simp
      obtain e st where
        "get_positions_loop feed num (Suc i) r' (store_position report rift) = Some (Inl e, st)"
        "leds_num st = leds_num (store_position report rift)"
        using Suc.hyps(1) [OF d le Suc.prems(2) Suc.prems(3) Inr] by blast
      with False ne Inr show ?thesis
        by (subst get_positions_loop.simps) (simp add: leds_num_store_position)
    qed
  qed
qed

lemma positions_loop_abort_exact:
  assumes "i \<le> k" "k < unat num" "feed k = Inr rk" "pos_index rk \<ge> num" "feed i = Inr report"
    and "list_all (\<lambda>j. position_ok num (feed j)) [i..<k]"
  shows "get_positions_loop feed num i report rift = Some (Inl Malformed, stored_positions feed i k rift)"
  using assms
proof (induction "k - i" arbitrary: i report rift)
  case 0
  then have "report = rk" "i = k" by simp_all
  with 0 show ?case by (subst get_positions_loop.simps) (simp add: stored_positions_empty)
next
  case (Suc d)
  then have ik: "i < k" by simp
  have ne: "int i + 1 \<noteq> uint num"
    using ik Suc.prems(2) uint_nat [of num] by linarith
  have oki: "position_ok num (feed i)" and rest: "list_all (\<lambda>j. position_ok num (feed j)) [Suc i..<k]"
    using Suc.prems(6) ik by (simp_all add: upt_conv_Cons)
  have idx: "\<not> num \<le> pos_index report"
    using position_okD [OF oki] Suc.prems(5) by auto
  have "\<exists>r'. feed (Suc i) = Inr r'"
  proof (cases "Suc i = k")
    case True
    then show ?thesis using Suc.prems(3) by simp
  next
    case False
    then have "Suc i < k" using ik by simp
    then have "position_ok num (feed (Suc i))" using rest by (simp add: upt_conv_Cons)
    then show ?thesis using position_okD by blast
  qed
  then obtain r' where r': "feed (Suc i) = Inr r'" by blast
  have d: "d = k - Suc i" using Suc.hyps(2) by simp
  have le: "Suc i \<le> k" using ik by simp
  have "get_positions_loop feed num (Suc i) r' (store_position report rift) =
        Some (Inl Malformed, stored_positions feed (Suc i) k (store_position report rift))"
    by (rule Suc.hyps(1) [OF d le Suc.prems(2) Suc.prems(3) Suc.prems(4) r' rest])
  with idx ne r' Suc.prems(5) ik show ?case
    by (subst get_positions_loop.simps) (simp add: stored_positions_step [of i k])
qed

lemma positions_loop_complete:
  assumes "i < unat num" "feed i = Inr report"
    and "list_all (\<lambda>j. position_ok num (feed j)) [i..<unat num]"
  shows "get_positions_loop feed num i report rift =
         Some (Inr (), stored_positions feed i (unat num) rift)"
  using assms
proof (induction "unat num - i" arbitrary: i report rift)
  case 0
  then show ?case by simp
next
  case (Suc d)
  have oki: "position_ok num (feed i)"
    and rest: "list_all (\<lambda>j. position_ok num (feed j)) [Suc i..<unat num]"
    using Suc.prems(3) Suc.prems(1) by (simp_all add: upt_conv_Cons)
  have idx: "\<not> num \<le> pos_index report"
    using position_okD [OF oki] Suc.prems(2) by auto
  show ?case
  proof (cases "Suc i = unat num")
    case True
    then have eq: "int i + 1 = uint num" using uint_nat [of num] by linarith
    have "stored_positions feed i (unat num) rift = store_position report rift"
      unfolding True [symmetric]
      by (simp add: stored_positions_step [of i "Suc i"] stored_positions_empty Suc.prems(2))
    with idx eq show ?thesis
      by (subst get_positions_loop.simps) simp
  next
    case False
    then have lt: "Suc i < unat num" using Suc.prems(1) by simp
    then have ne: "int i + 1 \<noteq> uint num" using uint_nat [of num] by linarith
    have "position_ok num (feed (Suc i))" using rest lt by (simp add: upt_conv_Cons)
    then obtain r' where r': "feed (Suc i) = Inr r'" using position_okD by blast
    have d: "d = unat num - Suc i" using Suc.hyps(2) by simp
    have "get_positions_loop feed num (Suc i) r' (store_position report rift) =
          Some (Inr (), stored_positions feed (Suc i) (unat num) (store_position report rift))"
      by (rule Suc.hyps(1) [OF d lt r' rest])
    with idx ne r' Suc.prems(1,2) show ?thesis
      by (subst get_positions_loop.simps) (simp add: stored_positions_step [of i "unat num"])
  qed
qed

lemma stored_patterns_step:
  "i < k \<Longrightarrow> stored_patterns feed i k rift = stored_patterns feed (Suc i) k (store_pattern (projr (feed i)) rift)"
  by (simp add: stored_patterns_def upt_conv_Cons)

lemma stored_patterns_empty: "stored_patterns feed k k rift = rift"
  by (simp add: stored_patterns_def)

lemma leds_num_store_pattern: "leds_num (store_pattern r rift) = leds_num rift"
  by (simp add: store_pattern_def)

lemma pattern_okD:
  "pattern_ok num resp \<Longrightarrow>
   \<exists>r. resp = Inr r \<and> \<not> num \<le> pat_index r \<and>
       led_pattern_decode r = Inr (led_pattern_compress (pattern r))"
  by (cases resp) (auto simp: pattern_ok_def led_pattern_decode_def)

lemma pattern_not_okD:
  "\<not> pattern_ok num (Inr r) \<Longrightarrow> num \<le> pat_index r \<or> led_pattern_decode r = Inl Malformed"
  by (auto simp: pattern_ok_def led_pattern_decode_def)

lemma led_patterns_loop_first_bad:
  assumes "\<not> pattern_ok num (Inr report)"
  shows "get_led_patterns_loop feed num i report rift = Some (Inl Malformed, rift)"
  using pattern_not_okD [OF assms]
  by (subst get_led_patterns_loop.simps) auto

lemma led_patterns_loop_step:
  assumes "pattern_ok num (Inr report)" "int i + 1 \<noteq> uint num"
  shows "get_led_patterns_loop feed num i report rift =
         (case feed (Suc i) of
            Inl e \<Rightarrow> Some (Inl e, store_pattern report rift)
          | Inr report' \<Rightarrow> get_led_patterns_loop feed num (Suc i) report' (store_pattern report rift))"
  using pattern_okD [OF assms(1)] assms(2)
  by (subst get_led_patterns_loop.simps) (auto simp: store_pattern_def Let_def split: sum.splits)

lemma led_patterns_loop_last:
  assumes "pattern_ok num (Inr report)" "int i + 1 = uint num"
  shows "get_led_patterns_loop feed num i report rift = Some (Inr (), store_pattern report rift)"
  using pattern_okD [OF assms(1)] assms(2)
  by (subst get_led_patterns_loop.simps) (auto simp: store_pattern_def Let_def split: sum.splits)

lemma led_patterns_loop_abort_any:
  assumes "i \<le> k" "k < unat num" "\<not> pattern_ok num (feed k)" "feed i = Inr report"
  shows "\<exists>e st. get_led_patterns_loop feed num i report rift = Some (Inl e, st) \<and>
                leds_num st = leds_num rift"
  using assms
proof (induction "k - i" arbitrary: i report rift)
  case 0
  then have "\<not> pattern_ok num (Inr report)" by simp
  then show ?case by (simp add: led_patterns_loop_first_bad)
next
  case (Suc d)
  then have ik: "i < k" by simp
  have ne: "int i + 1 \<noteq> uint num"
    using ik Suc.prems(2) uint_nat [of num] by linarith
  show ?case
  proof (cases "pattern_ok num (Inr report)")
    case False
    then show ?thesis by (simp add: led_patterns_loop_first_bad)
  next
    case True
    show ?thesis
    proof (cases "feed (Suc i)")
      case (Inl e)
      then show ?thesis
        by (simp add: led_patterns_loop_step [OF True ne] leds_num_store_pattern)
    next
      case (Inr r')
      have d: "d = k - Suc i" using Suc.hyps(2) by simp
      have le: "Suc i \<le> k" using ik by simp
      obtain e st where
        "get_led_patterns_loop feed num (Suc i) r' (store_pattern report rift) = Some (Inl e, st)"
        "leds_num st = leds_num (store_pattern report rift)"
        using Suc.hyps(1) [OF d le Suc.prems(2) Suc.prems(3) Inr] by blast
      with Inr show ?thesis
        by (simp add: led_patterns_loop_step [OF True ne] leds_num_store_pattern)
    qed
  qed
qed

lemma led_patterns_loop_abort_exact:
  assumes "i \<le> k" "k < unat num" "feed k = Inr rk" "\<not> pattern_ok num (feed k)" "feed i = Inr report"
    and "list_all (\<lambda>j. pattern_ok num (feed j)) [i..<k]"
  shows "get_led_patterns_loop feed num i report rift =
         Some (Inl Malformed, stored_patterns feed i k rift)"
  using assms
proof (induction "k - i" arbitrary: i report rift)
  case 0
  then have "\<not> pattern_ok num (Inr report)" "i = k" by simp_all
  then show ?case by (simp add: led_patterns_loop_first_bad stored_patterns_empty)
next
  case (Suc d)
  then have ik: "i < k" by simp
  have ne: "int i + 1 \<noteq> uint num"
    using ik Suc.prems(2) uint_nat [of num] by linarith
  have oki: "pattern_ok num (feed i)"
    and rest: "list_all (\<lambda>j. pattern_ok num (feed j)) [Suc i..<k]"
    using Suc.prems(6) ik by (simp_all add: upt_conv_Cons)
  have ok: "pattern_ok num (Inr report)" using oki Suc.prems(5) by simp
  have "\<exists>r'. feed (Suc i) = Inr r'"
  proof (cases "Suc i = k")
    case True
    then show ?thesis using Suc.prems(3) by simp
  next
    case False
    then have "Suc i < k" using ik by simp
    then have "pattern_ok num (feed (Suc i))" using rest by (simp add: upt_conv_Cons)
    then show ?thesis using pattern_okD by blast
  qed
  then obtain r' where r': "feed (Suc i) = Inr r'" by blast
  have d: "d = k - Suc i" using Suc.hyps(2) by simp
  have le: "Suc i \<le> k" using ik by simp
  have "get_led_patterns_loop feed num (Suc i) r' (store_pattern report rift) =
        Some (Inl Malformed, stored_patterns feed (Suc i) k (store_pattern report rift))"
    by (rule Suc.hyps(1) [OF d le Suc.prems(2) Suc.prems(3) Suc.prems(4) r' rest])
  with r' Suc.prems(5) ik show ?case
    by (simp add: led_patterns_loop_step [OF ok ne] stored_patterns_step [of i k])
qed

lemma led_patterns_loop_complete:
  assumes "i < unat num" "feed i = Inr report"
    and "list_all (\<lambda>j. pattern_ok num (feed j)) [i..<unat num]"
  shows "get_led_patterns_loop feed num i report rift =
         Some (Inr (), stored_patterns feed i (unat num) rift)"
  using assms
proof (induction "unat num - i" arbitrary: i report rift)
  case 0
  then show ?case by simp
next
  case (Suc d)
  have oki: "pattern_ok num (feed i)"
    and rest: "list_all (\<lambda>j. pattern_ok num (feed j)) [Suc i..<unat num]"
    using Suc.prems(3) Suc.prems(1) by (simp_all add: upt_conv_Cons)
  have ok: "pattern_ok num (Inr report)" using oki Suc.prems(2) by simp
  show ?case
  proof (cases "Suc i = unat num")
    case True
    then have eq: "int i + 1 = uint num" using uint_nat [of num] by linarith
    have "stored_patterns feed i (unat num) rift = store_pattern report rift"
      unfolding True [symmetric]
      by (simp add: stored_patterns_step [of i "Suc i"] stored_patterns_empty Suc.prems(2))
    then show ?thesis
      by (simp add: led_patterns_loop_last [OF ok eq])
  next
    case False
    then have lt: "Suc i < unat num" using Suc.prems(1) by simp
    then have ne: "int i + 1 \<noteq> uint num" using uint_nat [of num] by linarith
    have "pattern_ok num (feed (Suc i))" using rest lt by (simp add: upt_conv_Cons)
    then obtain r' where r': "feed (Suc i) = Inr r'" using pattern_okD by blast
    have d: "d = unat num - Suc i" using Suc.hyps(2) by simp
    have "get_led_patterns_loop feed num (Suc i) r' (store_pattern report rift) =
          Some (Inr (), stored_patterns feed (Suc i) (unat num) (store_pattern report rift))"
      by (rule Suc.hyps(1) [OF d lt r' rest])
    with r' Suc.prems(1,2) show ?thesis
      by (simp add: led_patterns_loop_step [OF ok ne] stored_patterns_step [of i "unat num"])
  qed
qed

text \<open>Both loops end, whatever the device answers.\<close>

lemma positions_loop_returns:
  assumes "i < unat num"
  shows "\<exists>res. get_positions_loop feed num i report rift = Some res"
  using assms
proof (induction "unat num - i" arbitrary: i report rift)
  case 0
  then show ?case by simp
next
  case (Suc d)
  show ?case
  proof (cases "num \<le> pos_index report \<or> int i + 1 = uint num")
    case True
    then show ?thesis by (subst get_positions_loop.simps) auto
  next
    case False
    then have "int i + 1 \<noteq> uint num" by simp
    then have lt: "Suc i < unat num" using Suc.prems uint_nat [of num] by linarith
    have d: "d = unat num - Suc i" using Suc.hyps(2) by simp
    show ?thesis
    proof (cases "feed (Suc i)")
      case (Inl e)
      with False show ?thesis by (subst get_positions_loop.simps) simp
    next
      case (Inr r')
      with False Suc.hyps(1) [OF d lt, of r' "store_position report rift"] show ?thesis
        by (subst get_positions_loop.simps) simp
    qed
  qed
qed

lemma get_positions_returns:
  "\<exists>res. rift_dk2_get_positions MAXP feed rift = Some res"
proof (cases "feed 0")
  case (Inl e)
  then show ?thesis by (simp add: rift_dk2_get_positions_def)
next
  case (Inr r0)
  have "\<exists>res. get_positions_loop feed (pos_num r0) 0 r0 rift = Some res"
  proof (cases "0 < unat (pos_num r0)")
    case True
    then show ?thesis by (rule positions_loop_returns)
  next
    case False
    then have "pos_num r0 = 0" by (simp add: unat_eq_0)
    then show ?thesis by (subst get_positions_loop.simps) simp
  qed
  then show ?thesis
    using Inr by (auto simp: rift_dk2_get_positions_def Let_def split: sum.splits)
qed

lemma led_patterns_loop_returns:
  assumes "i < unat num"
  shows "\<exists>res. get_led_patterns_loop feed num i report rift = Some res"
  using assms
proof (induction "unat num - i" arbitrary: i report rift)
  case 0
  then show ?case by simp
next
  case (Suc d)
  show ?case
  proof (cases "pattern_ok num (Inr report) \<and> int i + 1 \<noteq> uint num")
    case False
    then consider "\<not> pattern_ok num (Inr report)"
      | "pattern_ok num (Inr report)" "int i + 1 = uint num" by blast
    then show ?thesis
      by cases (simp_all add: led_patterns_loop_first_bad led_patterns_loop_last)
  next
    case True
    then have ok: "pattern_ok num (Inr report)" and ne: "int i + 1 \<noteq> uint num" by simp_all
    have lt: "Suc i < unat num" using ne Suc.prems uint_nat [of num] by linarith
    have d: "d = unat num - Suc i" using Suc.hyps(2) by simp
    show ?thesis
    proof (cases "feed (Suc i)")
      case (Inl e)
      then show ?thesis by (simp add: led_patterns_loop_step [OF ok ne])
    next
      case (Inr r')
      with Suc.hyps(1) [OF d lt, of r' "store_pattern report rift"] show ?thesis
        by (simp add: led_patterns_loop_step [OF ok ne])
    qed
  qed
qed

lemma get_led_patterns_returns:
  "\<exists>res. rift_dk2_get_led_patterns MAXL feed rift = Some res"
proof (cases "feed 0")
  case (Inl e)
  then show ?thesis by (simp add: rift_dk2_get_led_patterns_def)
next
  case (Inr r0)
  have "\<exists>res. get_led_patterns_loop feed (pat_num r0) 0 r0 rift = Some res"
  proof (cases "0 < unat (pat_num r0)")
    case True
    then show ?thesis by (rule led_patterns_loop_returns)
  next
    case False
    then have "pat_num r0 = 0" by (simp add: unat_eq_0)
    then show ?thesis by (subst get_led_patterns_loop.simps) simp
  qed
  then show ?thesis
    using Inr by (auto simp: rift_dk2_get_led_patterns_def Let_def)
qed

section \<open>Claims on the LED patterns and the enumerations\<close>

lemma get_positions_unfold:
  assumes "feed 0 = Inr r0" "unat (pos_num r0) \<le> MAXP"
  shows "rift_dk2_get_positions MAXP feed rift =
         (case get_positions_loop feed (pos_num r0) 0 r0 rift of
            None \<Rightarrow> None
          | Some (Inl e, rift') \<Rightarrow> Some (Inl e, rift')
          | Some (Inr u, rift') \<Rightarrow> Some (Inr (), rift'\<lparr>leds_num := uint (pos_num r0) - 1\<rparr>))"
  using assms by (simp add: rift_dk2_get_positions_def Let_def)

lemma get_led_patterns_unfold:
  assumes "feed 0 = Inr r0" "unat (pat_num r0) \<le> MAXL"
  shows "rift_dk2_get_led_patterns MAXL feed rift =
         get_led_patterns_loop feed (pat_num r0) 0 r0 rift"
  using assms by (simp add: rift_dk2_get_led_patterns_def Let_def)

text \<open>
  C3: the test accepts a 32-bit wire value exactly when its ten low 2-bit symbols are
  each 1 or 3 and nothing is set from bit 20 up; an accepted value is converted to a
  signature below 1024 whose bit \<open>k\<close> is set exactly when symbol \<open>k\<close> is 3. For a
  record of pattern length 10 the decoder returns that signature, or fails; a record
  within the announced count whose pattern fails the test makes the whole retrieval
  return a failure. The all-bright value 0xFFFFF gives 0x3FF, the all-dark value
  0x55555 gives 0.
\<close>

theorem led_pattern_decoder:
  "(led_pattern_valid p \<longleftrightarrow>
      list_all (\<lambda>k. led_symbol p k = 1 \<or> led_symbol p k = 3) [0..<10] \<and> drop_bit 20 p = 0) \<and>
   (led_pattern_valid p \<longrightarrow>
      led_pattern_compress p < 1024 \<and>
      list_all (\<lambda>k. bit (led_pattern_compress p) k \<longleftrightarrow> led_symbol p k = 3) [0..<10]) \<and>
   (pattern_length report = 10 \<longrightarrow>
      led_pattern_decode report =
        (if led_pattern_valid (pattern report)
         then Inr (led_pattern_compress (pattern report)) else Inl Malformed)) \<and>
   (feed 0 = Inr r0 \<and> unat (pat_num r0) \<le> MAX_LEDS \<and> k < unat (pat_num r0) \<and>
    feed k = Inr rk \<and> \<not> led_pattern_valid (pattern rk) \<longrightarrow>
      (\<exists>e st. rift_dk2_get_led_patterns MAX_LEDS feed rift = Some (Inl e, st))) \<and>
   led_pattern_valid 0xFFFFF \<and> led_pattern_compress 0xFFFFF = 0x3FF \<and>
   led_pattern_valid 0x55555 \<and> led_pattern_compress 0x55555 = 0"
proof -
  have abort: "\<exists>e st. rift_dk2_get_led_patterns MAX_LEDS feed rift = Some (Inl e, st)"
    if h: "feed 0 = Inr r0" "unat (pat_num r0) \<le> MAX_LEDS" "k < unat (pat_num r0)"
      "feed k = Inr rk" "\<not> led_pattern_valid (pattern rk)"
  proof -
    have "\<not> pattern_ok (pat_num r0) (feed k)" using h(4,5) by (simp add: pattern_ok_def)
    then show ?thesis
      using led_patterns_loop_abort_any [of 0 k "pat_num r0" feed r0 rift] h(1,3)
      by (auto simp: get_led_patterns_unfold [of feed r0 MAX_LEDS rift, OF h(1,2)])
  qed
  have extremes: "led_pattern_valid 0xFFFFF" "led_pattern_compress 0xFFFFF = 0x3FF"
    "led_pattern_valid 0x55555" "led_pattern_compress 0x55555 = 0"
    by (simp_all add: led_pattern_compress_def led_pattern_valid_def Let_def)
  show ?thesis
    using valid_iff [of p] compress_bits [of p] compress_lt [of p] abort extremes
    by (auto simp: led_pattern_decode_def)
qed

theorem led_pattern_decoder_witness:
  "led_pattern_valid 0x5555D \<and> led_pattern_compress 0x5555D = 2 \<and>
   led_symbol 0x5555D 1 = 3 \<and> bit (led_pattern_compress 0x5555D) 1 \<and>
   pattern_length (bright_pattern 0) = 10 \<and>
   led_pattern_decode (bright_pattern 0) = Inr 0x3FF \<and>
   smudged_feed 0 = Inr (bright_pattern 0) \<and> unat (pat_num (bright_pattern 0)) \<le> 40 \<and>
   1 < unat (pat_num (bright_pattern 0)) \<and>
   smudged_feed 1 = Inr ((bright_pattern 1)\<lparr>pattern := 0xFFFFE\<rparr>) \<and>
   \<not> led_pattern_valid (pattern ((bright_pattern 1)\<lparr>pattern := 0xFFFFE\<rparr>)) \<and>
   rift_dk2_get_led_patterns 40 smudged_feed ouvrt_rift_dk2_init =
     Some (Inl Malformed, store_pattern (bright_pattern 0) ouvrt_rift_dk2_init)"
  using led_pattern_decoder [where p = "0x5555D" and report = "bright_pattern 0"
      and feed = smudged_feed and ?r0.0 = "bright_pattern 0" and MAX_LEDS = 40 and k = 1
      and rk = "(bright_pattern 1)\<lparr>pattern := 0xFFFFE\<rparr>" and rift = ouvrt_rift_dk2_init]
  by (simp add: led_pattern_valid_def led_pattern_compress_def led_symbol_def Let_def
      bright_pattern_def smudged_feed_def led_pattern_decode_def store_pattern_def
      rift_dk2_get_led_patterns_def get_led_patterns_loop.simps)

text \<open>
  C4, as stated, fails: a device announces two position records, sends LED 0 and then
  a record with index 2. The retrieval fails, and the position and direction of LED 0
  are in the LED table all the same.
\<close>

theorem positions_abort_keeps_record_counterexample:
  "rift_dk2_get_positions 41 stray_feed ouvrt_rift_dk2_init =
     Some (Inl Malformed, store_position first_position ouvrt_rift_dk2_init) \<and>
   x (leds_positions (store_position first_position ouvrt_rift_dk2_init) 0) = 1 \<and>
   x (leds_positions ouvrt_rift_dk2_init 0) = 0"
  by (simp add: rift_dk2_get_positions_def stray_feed_def first_position_def stray_position_def
      get_positions_loop.simps store_position_def position_of_def direction_of_def
      ouvrt_rift_dk2_init_def vec3_zero_def Let_def)

text \<open>
  C4 (amended): both retrievals return. In both the first response fixes the count,
  and a response among the first \<open>count\<close> that failed or carries an index at or above
  the count (or, for the patterns, an unexpected length or pattern) makes the retrieval
  return a failure with the LED count untouched. The records before the first such response have been
  written to the device state by then and stay written: nothing is rolled back. When
  the first \<open>count\<close> responses are acceptable the loop ends after exactly \<open>count\<close>
  responses, by its own counter and whatever index the last one carries, with all of
  them written.
\<close>

theorem enumeration_abort_is_not_rolled_back:
  "(\<exists>res. rift_dk2_get_positions MAXP feed rift = Some res) \<and>
   (\<exists>res. rift_dk2_get_led_patterns MAXL pfeed rift = Some res) \<and>
   (feed 0 = Inr r0 \<and> unat (pos_num r0) \<le> MAXP \<and> k < unat (pos_num r0) \<and>
    \<not> position_ok (pos_num r0) (feed k) \<longrightarrow>
      (\<exists>e st. rift_dk2_get_positions MAXP feed rift = Some (Inl e, st) \<and>
               leds_num st = leds_num rift)) \<and>
   (feed 0 = Inr r0 \<and> unat (pos_num r0) \<le> MAXP \<and> k < unat (pos_num r0) \<and>
    feed k = Inr rk \<and> pos_num r0 \<le> pos_index rk \<and>
    list_all (\<lambda>j. position_ok (pos_num r0) (feed j)) [0..<k] \<longrightarrow>
      rift_dk2_get_positions MAXP feed rift =
        Some (Inl Malformed, stored_positions feed 0 k rift)) \<and>
   (feed 0 = Inr r0 \<and> unat (pos_num r0) \<le> MAXP \<and> 0 < unat (pos_num r0) \<and>
    list_all (\<lambda>j. position_ok (pos_num r0) (feed j)) [0..<unat (pos_num r0)] \<longrightarrow>
      rift_dk2_get_positions MAXP feed rift =
        Some (Inr (), (stored_positions feed 0 (unat (pos_num r0)) rift)
                        \<lparr>leds_num := uint (pos_num r0) - 1\<rparr>)) \<and>
   (pfeed 0 = Inr q0 \<and> unat (pat_num q0) \<le> MAXL \<and> k < unat (pat_num q0) \<and>
    \<not> pattern_ok (pat_num q0) (pfeed k) \<longrightarrow>
      (\<exists>e st. rift_dk2_get_led_patterns MAXL pfeed rift = Some (Inl e, st) \<and>
               leds_num st = leds_num rift)) \<and>
   (pfeed 0 = Inr q0 \<and> unat (pat_num q0) \<le> MAXL \<and> k < unat (pat_num q0) \<and>
    pfeed k = Inr qk \<and> \<not> pattern_ok (pat_num q0) (pfeed k) \<and>
    list_all (\<lambda>j. pattern_ok (pat_num q0) (pfeed j)) [0..<k] \<longrightarrow>
      rift_dk2_get_led_patterns MAXL pfeed rift =
        Some (Inl Malformed, stored_patterns pfeed 0 k rift)) \<and>
   (pfeed 0 = Inr q0 \<and> unat (pat_num q0) \<le> MAXL \<and> 0 < unat (pat_num q0) \<and>
    list_all (\<lambda>j. pattern_ok (pat_num q0) (pfeed j)) [0..<unat (pat_num q0)] \<longrightarrow>
      rift_dk2_get_led_patterns MAXL pfeed rift =
        Some (Inr (), stored_patterns pfeed 0 (unat (pat_num q0)) rift))"
proof (intro conjI impI; (elim conjE)?)
  show "\<exists>res. rift_dk2_get_positions MAXP feed rift = Some res"
    by (rule get_positions_returns)
next
  show "\<exists>res. rift_dk2_get_led_patterns MAXL pfeed rift = Some res"
    by (rule get_led_patterns_returns)
next
  assume h: "feed 0 = Inr r0" "unat (pos_num r0) \<le> MAXP" "k < unat (pos_num r0)"
    "\<not> position_ok (pos_num r0) (feed k)"
  show "\<exists>e st. rift_dk2_get_positions MAXP feed rift = Some (Inl e, st) \<and>
               leds_num st = leds_num rift"
    using positions_loop_abort_any [of 0 k "pos_num r0" feed r0 rift] h
    by (auto simp: get_positions_unfold [of feed r0 MAXP rift, OF h(1,2)])
next
  assume h: "feed 0 = Inr r0" "unat (pos_num r0) \<le> MAXP" "k < unat (pos_num r0)"
    "feed k = Inr rk" "pos_num r0 \<le> pos_index rk"
    "list_all (\<lambda>j. position_ok (pos_num r0) (feed j)) [0..<k]"
  show "rift_dk2_get_positions MAXP feed rift =
        Some (Inl Malformed, stored_positions feed 0 k rift)"
    using positions_loop_abort_exact [of 0 k "pos_num r0" feed rk r0 rift] h
    by (simp add: get_positions_unfold [of feed r0 MAXP rift, OF h(1,2)])
next
  assume h: "feed 0 = Inr r0" "unat (pos_num r0) \<le> MAXP" "0 < unat (pos_num r0)"
    "list_all (\<lambda>j. position_ok (pos_num r0) (feed j)) [0..<unat (pos_num r0)]"
  show "rift_dk2_get_positions MAXP feed rift =
        Some (Inr (), (stored_positions feed 0 (unat (pos_num r0)) rift)
                        \<lparr>leds_num := uint (pos_num r0) - 1\<rparr>)"
    using positions_loop_complete [of 0 "pos_num r0" feed r0 rift] h
    by (simp add: get_positions_unfold [of feed r0 MAXP rift, OF h(1,2)])
next
  assume h: "pfeed 0 = Inr q0" "unat (pat_num q0) \<le> MAXL" "k < unat (pat_num q0)"
    "\<not> pattern_ok (pat_num q0) (pfeed k)"
  show "\<exists>e st. rift_dk2_get_led_patterns MAXL pfeed rift = Some (Inl e, st) \<and>
               leds_num st = leds_num rift"
    using led_patterns_loop_abort_any [of 0 k "pat_num q0" pfeed q0 rift] h
    by (simp add: get_led_patterns_unfold [of pfeed q0 MAXL rift, OF h(1,2)])
next
  assume h: "pfeed 0 = Inr q0" "unat (pat_num q0) \<le> MAXL" "k < unat (pat_num q0)"
    "pfeed k = Inr qk" "\<not> pattern_ok (pat_num q0) (pfeed k)"
    "list_all (\<lambda>j. pattern_ok (pat_num q0) (pfeed j)) [0..<k]"
  show "rift_dk2_get_led_patterns MAXL pfeed rift =
        Some (Inl Malformed, stored_patterns pfeed 0 k rift)"
    using led_patterns_loop_abort_exact [of 0 k "pat_num q0" pfeed qk q0 rift] h
    by (simp add: get_led_patterns_unfold [of pfeed q0 MAXL rift, OF h(1,2)])
next
  assume h: "pfeed 0 = Inr q0" "unat (pat_num q0) \<le> MAXL" "0 < unat (pat_num q0)"
    "list_all (\<lambda>j. pattern_ok (pat_num q0) (pfeed j)) [0..<unat (pat_num q0)]"
  show "rift_dk2_get_led_patterns MAXL pfeed rift =
        Some (Inr (), stored_patterns pfeed 0 (unat (pat_num q0)) rift)"
    using led_patterns_loop_complete [of 0 "pat_num q0" pfeed q0 rift] h
    by (simp add: get_led_patterns_unfold [of pfeed q0 MAXL rift, OF h(1,2)])
qed

theorem enumeration_abort_is_not_rolled_back_witness:
  "stray_feed 0 = Inr first_position \<and> unat (pos_num first_position) \<le> 41 \<and>
   1 < unat (pos_num first_position) \<and>
   \<not> position_ok (pos_num first_position) (stray_feed 1) \<and>
   stray_feed 1 = Inr stray_position \<and> pos_num first_position \<le> pos_index stray_position \<and>
   list_all (\<lambda>j. position_ok (pos_num first_position) (stray_feed j)) [0..<1] \<and>
   rift_dk2_get_positions 41 stray_feed ouvrt_rift_dk2_init =
     Some (Inl Malformed, stored_positions stray_feed 0 1 ouvrt_rift_dk2_init) \<and>
   steady_feed 0 = Inr first_position \<and>
   list_all (\<lambda>j. position_ok (pos_num first_position) (steady_feed j))
     [0..<unat (pos_num first_position)] \<and>
   rift_dk2_get_positions 41 steady_feed ouvrt_rift_dk2_init =
     Some (Inr (), (stored_positions steady_feed 0 2 ouvrt_rift_dk2_init)\<lparr>leds_num := 1\<rparr>) \<and>
   smudged_feed 0 = Inr (bright_pattern 0) \<and> unat (pat_num (bright_pattern 0)) \<le> 40 \<and>
   1 < unat (pat_num (bright_pattern 0)) \<and>
   \<not> pattern_ok (pat_num (bright_pattern 0)) (smudged_feed 1) \<and>
   list_all (\<lambda>j. pattern_ok (pat_num (bright_pattern 0)) (smudged_feed j)) [0..<1] \<and>
   rift_dk2_get_led_patterns 40 smudged_feed ouvrt_rift_dk2_init =
     Some (Inl Malformed, stored_patterns smudged_feed 0 1 ouvrt_rift_dk2_init) \<and>
   bright_feed 0 = Inr (bright_pattern 0) \<and>
   list_all (\<lambda>j. pattern_ok (pat_num (bright_pattern 0)) (bright_feed j))
     [0..<unat (pat_num (bright_pattern 0))] \<and>
   rift_dk2_get_led_patterns 40 bright_feed ouvrt_rift_dk2_init =
     Some (Inr (), stored_patterns bright_feed 0 2 ouvrt_rift_dk2_init)"
  using
    enumeration_abort_is_not_rolled_back [where feed = stray_feed and ?r0.0 = first_position
      and MAXP = 41 and k = 1 and rk = stray_position and rift = ouvrt_rift_dk2_init
      and pfeed = smudged_feed and ?q0.0 = "bright_pattern 0" and MAXL = 40
      and qk = "(bright_pattern 1)\<lparr>pattern := 0xFFFFE\<rparr>"]
    enumeration_abort_is_not_rolled_back [where feed = steady_feed and ?r0.0 = first_position
      and MAXP = 41 and k = 1 and rift = ouvrt_rift_dk2_init
      and pfeed = bright_feed and ?q0.0 = "bright_pattern 0" and MAXL = 40]
  by (simp add: stray_feed_def steady_feed_def smudged_feed_def bright_feed_def
      first_position_def stray_position_def bright_pattern_def position_ok_def pattern_ok_def
      led_pattern_valid_def upt_rec)

section \<open>Properties of the periodic sensor message\<close>

lemma be32_packed:
  "be32 (memory_of packed_triple) 0 = 0x002697FA"
  "be32 (memory_of packed_triple) 4 = 0x74800012"
  "be32 (memory_of packed_triple) 32 = 0"
  by (simp_all add: be32_def memory_of_def packed_triple_def)

lemma samples_of_append: "samples_of (es @ fs) = samples_of es @ samples_of fs"
  by (induction es rule: samples_of.induct) simp_all

lemma prints_of_append: "prints_of (es @ fs) = prints_of es @ prints_of fs"
  by (induction es rule: prints_of.induct) simp_all

lemma samples_of_map: "samples_of (map (\<lambda>i. Imu_fifo_in (f i)) ns) = map f ns"
  by (induction ns) simp_all

lemma prints_of_map: "prints_of (map (\<lambda>i. Imu_fifo_in (f i)) ns) = []"
  by (induction ns) simp_all

lemma decode_samples:
  assumes "64 \<le> len"
  shows "samples_of (snd (rift_dk2_decode_sensor_message rift mem buf len)) =
         map (decoded_sample mem buf) [0..<(if mem (buf + 3) > 1 then 2 else 1)]"
  using assms
  by (simp add: rift_dk2_decode_sensor_message_def Let_def samples_of_append samples_of_map
      decoded_sample_def)

lemma decode_prints:
  assumes "64 \<le> len"
  shows "prints_of (snd (rift_dk2_decode_sensor_message rift mem buf len)) =
         (let dt = sint (le32 mem (buf + 8) - last_sample_timestamp rift) in
          if dt < report_interval rift - 1 \<or> dt > report_interval rift + 1 \<or>
             1000 * uint (mem (buf + 3)) \<noteq> report_interval rift
          then [(uint (mem (buf + 3)), dt)] else [])"
  using assms
  by (simp add: rift_dk2_decode_sensor_message_def Let_def prints_of_append prints_of_map)

lemma decode_state:
  assumes "64 \<le> len"
  shows "fst (rift_dk2_decode_sensor_message rift mem buf len) =
         rift\<lparr>last_sample_timestamp := le32 mem (buf + 8)\<rparr>"
  using assms
  by (simp add: rift_dk2_decode_sensor_message_def Let_def)

lemma be32_report:
  "be32 (memory_of (sensor_report n t)) 12 = 0x002697FA"
  "be32 (memory_of (sensor_report n t)) 44 = 0"
  by (simp_all add: memory_of_def sensor_report_def packed_triple_def be32_def nth_append)

text \<open>
  C2: the result of the code does not depend on the bytes 4 to 7 of the 8 bytes it is
  given. The 8 bytes 00 26 97 FA 74 80 00 12 pack the triple (1234, -5678, 9). Read as
  the specification says, they give (0.1234, -0.5678, 0.0009). The code takes its
  second word 32 bytes after the first; with zeros there it returns
  (0.1234, -0.6144, 0), and the same for the first acceleration of a report that
  carries these 8 bytes and zeros elsewhere. The second and third component are off by
  more than 1e-4.
\<close>

theorem unpack_3x21bit_reads_wrong_word:
  "unpack_3x21bit (mem(buf + 4 := b4, buf + 5 := b5, buf + 6 := b6, buf + 7 := b7)) buf =
     unpack_3x21bit mem buf \<and>
   unpack_3x21bit_spec (memory_of packed_triple) 0 =
     \<lparr>x = 1234 / 10000, y = - 5678 / 10000, z = 9 / 10000\<rparr> \<and>
   unpack_3x21bit (memory_of packed_triple) 0 =
     \<lparr>x = 1234 / 10000, y = - 6144 / 10000, z = 0\<rparr> \<and>
   \<not> \<bar>y (unpack_3x21bit (memory_of packed_triple) 0) - (- 5678 / 10000)\<bar> \<le> 1 / 10000 \<and>
   \<not> \<bar>z (unpack_3x21bit (memory_of packed_triple) 0) - 9 / 10000\<bar> \<le> 1 / 10000 \<and>
   map acceleration
     (samples_of (snd (rift_dk2_decode_sensor_message negotiated
        (memory_of (sensor_report 1 2000)) 0 64))) =
     [\<lparr>x = 1234 / 10000, y = - 6144 / 10000, z = 0\<rparr>]"
proof -
  have a: "unpack_3x21bit_spec (memory_of packed_triple) 0 =
     \<lparr>x = 1234 / 10000, y = - 5678 / 10000, z = 9 / 10000\<rparr>"
    by (simp add: unpack_3x21bit_spec_def be32_packed Let_def)
  have b: "unpack_3x21bit (memory_of packed_triple) 0 =
     \<lparr>x = 1234 / 10000, y = - 6144 / 10000, z = 0\<rparr>"
    by (simp add: unpack_3x21bit_def be32_packed Let_def)
  have n: "memory_of (sensor_report 1 2000) 3 = 1"
    by (simp add: memory_of_def sensor_report_def)
  have c: "unpack_3x21bit (memory_of (sensor_report 1 2000)) 12 =
     \<lparr>x = 1234 / 10000, y = - 6144 / 10000, z = 0\<rparr>"
    by (simp add: unpack_3x21bit_def be32_report Let_def)
  have d: "map acceleration
     (samples_of (snd (rift_dk2_decode_sensor_message negotiated
        (memory_of (sensor_report 1 2000)) 0 64))) =
     [\<lparr>x = 1234 / 10000, y = - 6144 / 10000, z = 0\<rparr>]"
    by (simp add: decode_samples n decoded_sample_def c)
  have e: "unpack_3x21bit (mem(buf + 4 := b4, buf + 5 := b5, buf + 6 := b6, buf + 7 := b7)) buf =
     unpack_3x21bit mem buf"
    by (simp add: unpack_3x21bit_def be32_def)
  show ?thesis
    unfolding b e by (simp add: a d)
qed

text \<open>
  C5, as stated, fails: with a report interval of 2000 and a report of two samples
  that arrives 2000 after the previous one, the delta deviates from interval times
  sample count by 2000, but the code prints nothing; and when such a report arrives
  4000 after the previous one, where the delta equals interval times sample count,
  the code prints.
\<close>

theorem drift_test_counterexample:
  "drift_spec (report_interval negotiated) 2 2000 \<and>
   prints_of (snd (rift_dk2_decode_sensor_message negotiated
      (memory_of (sensor_report 2 2000)) 0 64)) = [] \<and>
   \<not> drift_spec (report_interval negotiated) 2 4000 \<and>
   prints_of (snd (rift_dk2_decode_sensor_message negotiated
      (memory_of (sensor_report 2 4000)) 0 64)) = [(2, 4000)]"
proof -
  have n: "memory_of (sensor_report 2 t) 3 = 2" for t
    by (simp add: memory_of_def sensor_report_def)
  have t: "le32 (memory_of (sensor_report 2 2000)) 8 = 2000"
    "le32 (memory_of (sensor_report 2 4000)) 8 = 4000"
    by (simp_all add: memory_of_def sensor_report_def le32_def)
  show ?thesis
    by (simp add: decode_prints n t drift_spec_def negotiated_def ouvrt_rift_dk2_init_def)
qed

text \<open>
  C5 (amended): for every full-size message the decoder takes the wrap-around 32-bit
  difference of the message's timestamp and the previous one, read as a signed 32-bit
  number, and stores the message's timestamp as the new previous one. It prints one
  line, and no more, exactly when that delta is below the report interval minus 1, or
  above the report interval plus 1, or 1000 times the number of samples in the header
  differs from the report interval: the delta is compared with the interval itself,
  not with the interval times the sample count. The line is only printed, and the
  decoded samples are the same whatever the previous timestamp and the interval are.
\<close>

theorem drift_test_of_decoder:
  assumes "64 \<le> len"
  shows "last_sample_timestamp (fst (rift_dk2_decode_sensor_message rift mem buf len)) =
           le32 mem (buf + 8) \<and>
         prints_of (snd (rift_dk2_decode_sensor_message rift mem buf len)) =
           (let dt = sint (le32 mem (buf + 8) - last_sample_timestamp rift) in
            if dt < report_interval rift - 1 \<or> dt > report_interval rift + 1 \<or>
               1000 * uint (mem (buf + 3)) \<noteq> report_interval rift
            then [(uint (mem (buf + 3)), dt)] else []) \<and>
         length (prints_of (snd (rift_dk2_decode_sensor_message rift mem buf len))) \<le> 1 \<and>
         samples_of (snd (rift_dk2_decode_sensor_message rift mem buf len)) =
           samples_of (snd (rift_dk2_decode_sensor_message rift' mem buf len))"
  by (simp add: decode_state [OF assms] decode_prints [OF assms] decode_samples [OF assms]
      Let_def)

theorem drift_test_of_decoder_witness:
  "(64::nat) \<le> 64 \<and>
   last_sample_timestamp (fst (rift_dk2_decode_sensor_message negotiated
      (memory_of (sensor_report 2 4000)) 0 64)) = 4000 \<and>
   prints_of (snd (rift_dk2_decode_sensor_message negotiated
      (memory_of (sensor_report 2 4000)) 0 64)) = [(2, 4000)] \<and>
   samples_of (snd (rift_dk2_decode_sensor_message negotiated
      (memory_of (sensor_report 2 4000)) 0 64)) =
   samples_of (snd (rift_dk2_decode_sensor_message ouvrt_rift_dk2_init
      (memory_of (sensor_report 2 4000)) 0 64))"
proof -
  have n: "memory_of (sensor_report 2 4000) 3 = 2"
    by (simp add: memory_of_def sensor_report_def)
  have t: "le32 (memory_of (sensor_report 2 4000)) 8 = 4000"
    by (simp add: memory_of_def sensor_report_def le32_def)
  show ?thesis
    using drift_test_of_decoder [where len = 64 and rift = negotiated
        and mem = "memory_of (sensor_report 2 4000)" and buf = 0
        and rift' = ouvrt_rift_dk2_init]
    by (simp add: n t negotiated_def ouvrt_rift_dk2_init_def)
qed

text \<open>
  C10: a full-size message yields two samples when its header claims more than one,
  and one sample otherwise, also when it claims none: the count is the claimed one
  cut to at most 2 and raised to at least 1.
\<close>

theorem decoder_sample_count:
  assumes "64 \<le> len"
  shows "length (samples_of (snd (rift_dk2_decode_sensor_message rift mem buf len))) =
           (if 1 \<le> unat (mem (buf + 3)) then min (unat (mem (buf + 3))) 2 else 1) \<and>
         1 \<le> length (samples_of (snd (rift_dk2_decode_sensor_message rift mem buf len)))"
proof -
  have "(1 < mem (buf + 3)) = (1 < unat (mem (buf + 3)))"
    by (simp add: word_less_nat_alt)
  then show ?thesis
    by (auto simp: decode_samples [OF assms])
qed

theorem decoder_sample_count_witness:
  "(64::nat) \<le> 64 \<and>
   length (samples_of (snd (rift_dk2_decode_sensor_message negotiated
      (memory_of (sensor_report 0 2000)) 0 64))) = 1 \<and>
   length (samples_of (snd (rift_dk2_decode_sensor_message negotiated
      (memory_of (sensor_report 7 2000)) 0 64))) = 2"
proof -
  have n: "memory_of (sensor_report 0 2000) 3 = 0" "memory_of (sensor_report 7 2000) 3 = 7"
    by (simp_all add: memory_of_def sensor_report_def)
  show ?thesis
    using decoder_sample_count [where len = 64 and rift = negotiated
        and mem = "memory_of (sensor_report 0 2000)" and buf = 0]
      decoder_sample_count [where len = 64 and rift = negotiated
        and mem = "memory_of (sensor_report 7 2000)" and buf = 0]
    by (simp add: n)
qed

text \<open>
  C6, as stated, fails for the direction: the record of LED 0 carries the direction
  field 10000, which times 1e-4 would be 1; the code stores 0.01.
\<close>

theorem direction_scale_counterexample:
  "real_of_int (sint (dir0 first_position)) * (1 / 10000) = 1 \<and>
   x (leds_directions
        (snd (the (rift_dk2_get_positions 41 steady_feed ouvrt_rift_dk2_init))) 0) = 1 / 100"
  by (simp add: rift_dk2_get_positions_def steady_feed_def first_position_def
      get_positions_loop.simps store_position_def position_of_def direction_of_def
      ouvrt_rift_dk2_init_def vec3_zero_def Let_def)

text \<open>
  C6 (amended): a position record of type 0 stores, at its index, the three signed
  32-bit position fields times 1e-6 and the three signed 16-bit direction fields times
  1e-6 as well (not 1e-4); a record of type 1 stores its position fields times 1e-6 as
  the IMU position. Every sample decoded from a full-size periodic message carries the
  signed 16-bit temperature times 0.01 and the three signed 16-bit magnetic field
  values times 1e-4.
\<close>

theorem wire_scales:
  "(ucast (pos_type r) = (0 :: 8 word) \<longrightarrow>
      leds_positions (store_position r rift) (unat (pos_index r)) =
        \<lparr>x = real_of_int (sint (pos0 r)) / 1000000,
         y = real_of_int (sint (pos1 r)) / 1000000,
         z = real_of_int (sint (pos2 r)) / 1000000\<rparr> \<and>
      leds_directions (store_position r rift) (unat (pos_index r)) =
        \<lparr>x = real_of_int (sint (dir0 r)) / 1000000,
         y = real_of_int (sint (dir1 r)) / 1000000,
         z = real_of_int (sint (dir2 r)) / 1000000\<rparr>) \<and>
   (ucast (pos_type r) = (1 :: 8 word) \<longrightarrow>
      imu_position (store_position r rift) =
        \<lparr>x = real_of_int (sint (pos0 r)) / 1000000,
         y = real_of_int (sint (pos1 r)) / 1000000,
         z = real_of_int (sint (pos2 r)) / 1000000\<rparr>) \<and>
   (64 \<le> len \<longrightarrow>
      list_all (\<lambda>s. temperature s = real_of_int (sint (le16 mem (buf + 6))) / 100 \<and>
                    magnetic_field s =
                      \<lparr>x = real_of_int (sint (le16 mem (buf + 44))) / 10000,
                       y = real_of_int (sint (le16 mem (buf + 46))) / 10000,
                       z = real_of_int (sint (le16 mem (buf + 48))) / 10000\<rparr>)
        (samples_of (snd (rift_dk2_decode_sensor_message rift mem buf len))))"
  by (auto simp: store_position_def position_of_def direction_of_def Let_def decode_samples
      decoded_sample_def list_all_iff)

theorem wire_scales_witness:
  "ucast (pos_type first_position) = (0 :: 8 word) \<and>
   leds_positions (store_position first_position ouvrt_rift_dk2_init) 0 =
     \<lparr>x = 1, y = 0, z = 0\<rparr> \<and>
   leds_directions (store_position first_position ouvrt_rift_dk2_init) 0 =
     \<lparr>x = 1 / 100, y = 0, z = 0\<rparr> \<and>
   ucast (pos_type (first_position\<lparr>pos_type := 1\<rparr>)) = (1 :: 8 word) \<and>
   imu_position (store_position (first_position\<lparr>pos_type := 1\<rparr>) ouvrt_rift_dk2_init) =
     \<lparr>x = 1, y = 0, z = 0\<rparr> \<and>
   (64::nat) \<le> 64 \<and>
   list_all (\<lambda>s. temperature s = 0 \<and> magnetic_field s = \<lparr>x = 0, y = 0, z = 0\<rparr>)
     (samples_of (snd (rift_dk2_decode_sensor_message ouvrt_rift_dk2_init
        (memory_of (sensor_report 1 2000)) 0 64)))"
proof -
  have f: "le16 (memory_of (sensor_report 1 2000)) 6 = 0"
    "le16 (memory_of (sensor_report 1 2000)) 44 = 0"
    "le16 (memory_of (sensor_report 1 2000)) 46 = 0"
    "le16 (memory_of (sensor_report 1 2000)) 48 = 0"
    by (simp_all add: memory_of_def sensor_report_def packed_triple_def le16_def nth_append)
  show ?thesis
    using wire_scales [where r = first_position and rift = ouvrt_rift_dk2_init
        and len = 64 and mem = "memory_of (sensor_report 1 2000)" and buf = 0]
      wire_scales [where r = "first_position\<lparr>pos_type := 1\<rparr>" and rift = ouvrt_rift_dk2_init
        and len = 0]
    by (simp add: f first_position_def)
qed

section \<open>Properties of the device thread\<close>

lemma never_break: "POLLIN AND (POLLERR OR POLLHUP OR POLLNVAL) = 0"
  by (simp add: POLLIN_def POLLERR_def POLLHUP_def POLLNVAL_def)

lemma iteration_keepalive:
  assumes "poll_ret w = - 1 \<or> poll_ret w = 0 \<or> count st > 9 * report_rate (self st)"
  shows "rift_dk2_thread_iteration st w =
         (Continue, st\<lparr>count := 0\<rparr>,
          (if poll_ret w = - 1 \<or> poll_ret w = 0 then [Print_resending] else []) @
          [Send_keepalive])"
  using assms by (auto simp: rift_dk2_thread_iteration_def Let_def)

lemma iteration_read:
  assumes "poll_ret w \<noteq> - 1" "poll_ret w \<noteq> 0" "count st \<le> 9 * report_rate (self st)"
  shows "rift_dk2_thread_iteration st w =
         (if read_ret w = - 1 then (Continue, st, [Print_read_error])
          else if read_ret w < 64 then (Continue, st, [Print_invalid_report (read_ret w)])
          else (Continue,
                st\<lparr>self := fst (rift_dk2_decode_sensor_message (self st) (buf_after_read w) 0 64),
                   count := count st + 1\<rparr>,
                snd (rift_dk2_decode_sensor_message (self st) (buf_after_read w) 0 64)))"
  using assms
  by (auto simp: rift_dk2_thread_iteration_def Let_def never_break split: prod.splits)

lemma decode_report_rate:
  "report_rate (fst (rift_dk2_decode_sensor_message rift mem buf len)) = report_rate rift"
  by (simp add: rift_dk2_decode_sensor_message_def Let_def)

lemma loop_keepalive_or_count:
  assumes "list_all full_wakeup ws"
  shows "Send_keepalive \<in> set (snd (rift_dk2_thread_loop st ws)) \<or>
         (count (fst (rift_dk2_thread_loop st ws)) = count st + int (length ws) \<and>
          report_rate (self (fst (rift_dk2_thread_loop st ws))) = report_rate (self st) \<and>
          (ws \<noteq> [] \<longrightarrow> count st + int (length ws) \<le> 9 * report_rate (self st) + 1))"
  using assms
proof (induction ws arbitrary: st)
  case Nil
  show ?case by simp
next
  case (Cons w ws)
  from Cons.prems have fw: "full_wakeup w" and ws: "list_all full_wakeup ws"
    by simp_all
  from fw have w: "poll_ret w \<noteq> - 1" "poll_ret w \<noteq> 0" "64 \<le> read_ret w"
    by (simp_all add: full_wakeup_def)
  show ?case
  proof (cases "count st > 9 * report_rate (self st)")
    case True
    then show ?thesis
      by (simp add: iteration_keepalive split: prod.splits)
  next
    case False
    define st' where "st' = st\<lparr>self := fst (rift_dk2_decode_sensor_message (self st) (buf_after_read w) 0 64),
                   count := count st + 1\<rparr>"
    have le: "count st \<le> 9 * report_rate (self st)" using False by simp
    have it: "rift_dk2_thread_iteration st w =
      (Continue, st', snd (rift_dk2_decode_sensor_message (self st) (buf_after_read w) 0 64))"
      using w by (simp add: iteration_read [OF w(1,2) le] st'_def)
    have rate: "report_rate (self st') = report_rate (self st)"
      and cnt: "count st' = count st + 1"
      by (simp_all add: st'_def decode_report_rate)
    from Cons.IH [OF ws, of st'] show ?thesis
      using le by (auto simp: it rate cnt split: prod.splits)
  qed
qed

lemma loop_sends_keepalive:
  assumes "list_all full_wakeup ws" "ws \<noteq> []"
    and "9 * report_rate (self st) + 2 \<le> count st + int (length ws)"
  shows "Send_keepalive \<in> set (snd (rift_dk2_thread_loop st ws))"
  using loop_keepalive_or_count [OF assms(1), of st] assms(2,3) by auto

text \<open>
  C7, as stated, fails for read errors: when \<open>poll\<close> reports data and \<open>read\<close> returns
  -1 the iteration prints the error and continues; no keepalive is sent.
\<close>

theorem read_error_sends_no_keepalive_counterexample:
  "rift_dk2_thread_iteration \<lparr>self = negotiated, count = 0\<rparr> failed_read =
     (Continue, \<lparr>self = negotiated, count = 0\<rparr>, [Print_read_error]) \<and>
   Send_keepalive \<notin>
     set (snd (snd (rift_dk2_thread_iteration \<lparr>self = negotiated, count = 0\<rparr> failed_read)))"
  by (simp add: rift_dk2_thread_iteration_def failed_read_def full_report_def negotiated_def
      ouvrt_rift_dk2_init_def never_break Let_def)

text \<open>
  C7 (amended): in every iteration of the worker loop, a timeout or an error of
  \<open>poll\<close> makes the thread resend the keepalive, reset its counter and continue. When
  \<open>poll\<close> reports data and the counter is at most 9 times the report rate, the report
  is read: a read error is printed and the loop continues without a keepalive; a
  report of fewer than 64 bytes is printed and discarded without a keepalive; a
  full-size report is decoded and counted. Once the counter exceeds 9 times the
  report rate, the next iteration resends the keepalive without any error and resets
  the counter, so a run of \<open>9 * report_rate + 2\<close> wake-ups with full reports contains a
  keepalive.
\<close>

theorem thread_iteration_cases:
  "(poll_ret w = - 1 \<or> poll_ret w = 0 \<longrightarrow>
      rift_dk2_thread_iteration st w =
        (Continue, st\<lparr>count := 0\<rparr>, [Print_resending, Send_keepalive])) \<and>
   (poll_ret w \<noteq> - 1 \<and> poll_ret w \<noteq> 0 \<and> count st > 9 * report_rate (self st) \<longrightarrow>
      rift_dk2_thread_iteration st w = (Continue, st\<lparr>count := 0\<rparr>, [Send_keepalive])) \<and>
   (poll_ret w \<noteq> - 1 \<and> poll_ret w \<noteq> 0 \<and> count st \<le> 9 * report_rate (self st) \<and>
    read_ret w = - 1 \<longrightarrow>
      rift_dk2_thread_iteration st w = (Continue, st, [Print_read_error])) \<and>
   (poll_ret w \<noteq> - 1 \<and> poll_ret w \<noteq> 0 \<and> count st \<le> 9 * report_rate (self st) \<and>
    read_ret w \<noteq> - 1 \<and> read_ret w < 64 \<longrightarrow>
      rift_dk2_thread_iteration st w = (Continue, st, [Print_invalid_report (read_ret w)])) \<and>
   (poll_ret w \<noteq> - 1 \<and> poll_ret w \<noteq> 0 \<and> count st \<le> 9 * report_rate (self st) \<and>
    64 \<le> read_ret w \<longrightarrow>
      rift_dk2_thread_iteration st w =
        (Continue,
         st\<lparr>self := fst (rift_dk2_decode_sensor_message (self st) (buf_after_read w) 0 64),
            count := count st + 1\<rparr>,
         snd (rift_dk2_decode_sensor_message (self st) (buf_after_read w) 0 64))) \<and>
   (list_all full_wakeup ws \<and> ws \<noteq> [] \<and>
    9 * report_rate (self st) + 2 \<le> count st + int (length ws) \<longrightarrow>
      Send_keepalive \<in> set (snd (rift_dk2_thread_loop st ws)))"
proof (intro conjI impI; (elim conjE)?)
  assume "poll_ret w = - 1 \<or> poll_ret w = 0"
  then show "rift_dk2_thread_iteration st w =
        (Continue, st\<lparr>count := 0\<rparr>, [Print_resending, Send_keepalive])"
    by (auto simp: iteration_keepalive)
next
  assume "poll_ret w \<noteq> - 1" "poll_ret w \<noteq> 0" "count st > 9 * report_rate (self st)"
  then show "rift_dk2_thread_iteration st w = (Continue, st\<lparr>count := 0\<rparr>, [Send_keepalive])"
    by (simp add: iteration_keepalive)
next
  assume "poll_ret w \<noteq> - 1" "poll_ret w \<noteq> 0" "count st \<le> 9 * report_rate (self st)"
    "read_ret w = - 1"
  then show "rift_dk2_thread_iteration st w = (Continue, st, [Print_read_error])"
    by (simp add: iteration_read)
next
  assume "poll_ret w \<noteq> - 1" "poll_ret w \<noteq> 0" "count st \<le> 9 * report_rate (self st)"
    "read_ret w \<noteq> - 1" "read_ret w < 64"
  then show "rift_dk2_thread_iteration st w =
      (Continue, st, [Print_invalid_report (read_ret w)])"
    by (simp add: iteration_read)
next
  assume "poll_ret w \<noteq> - 1" "poll_ret w \<noteq> 0" "count st \<le> 9 * report_rate (self st)"
    "64 \<le> read_ret w"
  then show "rift_dk2_thread_iteration st w =
        (Continue,
         st\<lparr>self := fst (rift_dk2_decode_sensor_message (self st) (buf_after_read w) 0 64),
            count := count st + 1\<rparr>,
         snd (rift_dk2_decode_sensor_message (self st) (buf_after_read w) 0 64))"
    by (simp add: iteration_read)
next
  assume "list_all full_wakeup ws" "ws \<noteq> []"
    "9 * report_rate (self st) + 2 \<le> count st + int (length ws)"
  then show "Send_keepalive \<in> set (snd (rift_dk2_thread_loop st ws))"
    by (rule loop_sends_keepalive)
qed

theorem thread_iteration_cases_witness:
  "poll_ret (full_report\<lparr>poll_ret := 0\<rparr>) = 0 \<and>
   rift_dk2_thread_iteration \<lparr>self = negotiated, count = 7\<rparr> (full_report\<lparr>poll_ret := 0\<rparr>) =
     (Continue, \<lparr>self = negotiated, count = 0\<rparr>, [Print_resending, Send_keepalive]) \<and>
   poll_ret full_report \<noteq> - 1 \<and> poll_ret full_report \<noteq> 0 \<and>
   (4501::int) > 9 * report_rate negotiated \<and>
   rift_dk2_thread_iteration \<lparr>self = negotiated, count = 4501\<rparr> full_report =
     (Continue, \<lparr>self = negotiated, count = 0\<rparr>, [Send_keepalive]) \<and>
   (7::int) \<le> 9 * report_rate negotiated \<and> read_ret failed_read = - 1 \<and>
   rift_dk2_thread_iteration \<lparr>self = negotiated, count = 7\<rparr> failed_read =
     (Continue, \<lparr>self = negotiated, count = 7\<rparr>, [Print_read_error]) \<and>
   read_ret (full_report\<lparr>read_ret := 12\<rparr>) \<noteq> - 1 \<and>
   read_ret (full_report\<lparr>read_ret := 12\<rparr>) < 64 \<and>
   rift_dk2_thread_iteration \<lparr>self = negotiated, count = 7\<rparr> (full_report\<lparr>read_ret := 12\<rparr>) =
     (Continue, \<lparr>self = negotiated, count = 7\<rparr>, [Print_invalid_report 12]) \<and>
   64 \<le> read_ret full_report \<and>
   count (fst (snd (rift_dk2_thread_iteration \<lparr>self = negotiated, count = 7\<rparr> full_report))) = 8 \<and>
   list_all full_wakeup [full_report, full_report] \<and>
   9 * report_rate negotiated + 2 \<le> 4500 + int (length [full_report, full_report]) \<and>
   Send_keepalive \<in>
     set (snd (rift_dk2_thread_loop \<lparr>self = negotiated, count = 4500\<rparr> [full_report, full_report]))"
proof -
  note defs = full_report_def failed_read_def negotiated_def full_wakeup_def
    ouvrt_rift_dk2_init_def
  have 1: "rift_dk2_thread_iteration \<lparr>self = negotiated, count = 7\<rparr> (full_report\<lparr>poll_ret := 0\<rparr>) =
     (Continue, \<lparr>self = negotiated, count = 0\<rparr>, [Print_resending, Send_keepalive])"
    using thread_iteration_cases [where w = "full_report\<lparr>poll_ret := 0\<rparr>"
      and st = "\<lparr>self = negotiated, count = 7\<rparr>" and ws = "[]"]
    by (simp add: defs)
  have 2: "rift_dk2_thread_iteration \<lparr>self = negotiated, count = 4501\<rparr> full_report =
     (Continue, \<lparr>self = negotiated, count = 0\<rparr>, [Send_keepalive])"
    using thread_iteration_cases [where w = full_report
      and st = "\<lparr>self = negotiated, count = 4501\<rparr>" and ws = "[]"]
    by (simp add: defs)
  have 3: "rift_dk2_thread_iteration \<lparr>self = negotiated, count = 7\<rparr> failed_read =
     (Continue, \<lparr>self = negotiated, count = 7\<rparr>, [Print_read_error])"
    using thread_iteration_cases [where w = failed_read
      and st = "\<lparr>self = negotiated, count = 7\<rparr>" and ws = "[]"]
    by (simp add: defs)
  have 4: "rift_dk2_thread_iteration \<lparr>self = negotiated, count = 7\<rparr> (full_report\<lparr>read_ret := 12\<rparr>) =
     (Continue, \<lparr>self = negotiated, count = 7\<rparr>, [Print_invalid_report 12])"
    using thread_iteration_cases [where w = "full_report\<lparr>read_ret := 12\<rparr>"
      and st = "\<lparr>self = negotiated, count = 7\<rparr>" and ws = "[]"]
    by (simp add: defs)
  have 5: "count (fst (snd (rift_dk2_thread_iteration \<lparr>self = negotiated, count = 7\<rparr> full_report))) = 8"
    using thread_iteration_cases [where w = full_report
      and st = "\<lparr>self = negotiated, count = 7\<rparr>" and ws = "[]"]
    by (simp add: defs)
  have 6: "Send_keepalive \<in>
     set (snd (rift_dk2_thread_loop \<lparr>self = negotiated, count = 4500\<rparr> [full_report, full_report]))"
  proof -
    have "list_all full_wakeup [full_report, full_report] \<and>
      [full_report, full_report] \<noteq> [] \<and>
      9 * report_rate (self \<lparr>self = negotiated, count = 4500\<rparr>) + 2
        \<le> count \<lparr>self = negotiated, count = 4500\<rparr> + int (length [full_report, full_report])"
      by (simp add: defs)
    then show ?thesis
      using thread_iteration_cases [where w = full_report and ws = "[full_report, full_report]"
        and st = "\<lparr>self = negotiated, count = 4500\<rparr>"]
      by blast
  qed
  show ?thesis
    unfolding 1 2 3 4 5
    using 6 by (simp add: defs)
qed

section \<open>Properties of the device registry\<close>

lemma find_serial_append:
  "find_serial reg s = None \<Longrightarrow>
   find_serial (reg @ [d]) s = (if serial d = Some s then Some (length reg) else None)"
  by (induction reg) (auto split: if_splits)

lemma add_first:
  assumes "find_serial reg s = None" "serial d = None \<or> serial d = Some s"
  shows "ouvrtd_device_add (Some s) d reg = reg @ [d\<lparr>serial := Some s\<rparr>]"
  using assms by (auto simp: ouvrtd_device_add_def Let_def)

text \<open>
  C9, as stated, fails when a third device with the same serial is registered before
  the pair: the lookup stops at that device, and the camera of the pair keeps its own
  tracker, in either order of the two add events.
\<close>

theorem third_device_breaks_pairing_counterexample:
  "map tracker (ouvrtd_device_add (Some ''ABC'') the_camera
     (ouvrtd_device_add (Some ''ABC'') the_rift [third_device])) = [Some 1, Some 1, None] \<and>
   map device_class (ouvrtd_device_add (Some ''ABC'') the_camera
     (ouvrtd_device_add (Some ''ABC'') the_rift [third_device])) =
     [Camera_DK2, Rift_DK2, Camera_DK2] \<and>
   map tracker (ouvrtd_device_add (Some ''ABC'') the_rift
     (ouvrtd_device_add (Some ''ABC'') the_camera [third_device])) = [Some 1, None, Some 1] \<and>
   map serial (ouvrtd_device_add (Some ''ABC'') the_rift
     (ouvrtd_device_add (Some ''ABC'') the_camera [third_device])) =
     [Some ''ABC'', Some ''ABC'', Some ''ABC'']"
  by (simp add: ouvrtd_device_add_def the_rift_def the_camera_def third_device_def Let_def)

text \<open>
  C9 (amended): for a Rift DK2 and a Camera DK2 that carry the same serial, when no
  device already in the registry carries that serial, both orders of the two add
  events leave the same two devices at the end of the registry, the camera pointing to
  the tracker of the Rift: both reference the identical tracker handle.
\<close>

theorem paired_devices_share_tracker:
  assumes "find_serial reg s = None"
    and "device_class hmd = Rift_DK2" "device_class cam = Camera_DK2"
    and "serial hmd = None \<or> serial hmd = Some s" "serial cam = None \<or> serial cam = Some s"
  shows "ouvrtd_device_add (Some s) cam (ouvrtd_device_add (Some s) hmd reg) =
           reg @ [hmd\<lparr>serial := Some s\<rparr>, cam\<lparr>serial := Some s, tracker := tracker hmd\<rparr>] \<and>
         ouvrtd_device_add (Some s) hmd (ouvrtd_device_add (Some s) cam reg) =
           reg @ [cam\<lparr>serial := Some s, tracker := tracker hmd\<rparr>, hmd\<lparr>serial := Some s\<rparr>]"
proof -
  have f1: "find_serial (reg @ [hmd\<lparr>serial := Some s\<rparr>]) s = Some (length reg)"
    and f2: "find_serial (reg @ [cam\<lparr>serial := Some s\<rparr>]) s = Some (length reg)"
    using assms(1) by (simp_all add: find_serial_append)
  have a: "ouvrtd_device_add (Some s) cam (reg @ [hmd\<lparr>serial := Some s\<rparr>]) =
           reg @ [hmd\<lparr>serial := Some s\<rparr>, cam\<lparr>serial := Some s, tracker := tracker hmd\<rparr>]"
    using assms(2,3,5) by (auto simp: ouvrtd_device_add_def Let_def f1)
  have b: "ouvrtd_device_add (Some s) hmd (reg @ [cam\<lparr>serial := Some s\<rparr>]) =
           reg @ [cam\<lparr>serial := Some s, tracker := tracker hmd\<rparr>, hmd\<lparr>serial := Some s\<rparr>]"
    using assms(2,3,4) by (auto simp: ouvrtd_device_add_def Let_def f2)
  show ?thesis
    by (simp add: add_first [OF assms(1,4)] add_first [OF assms(1,5)] a b)
qed

theorem paired_devices_share_tracker_witness:
  "find_serial [third_device] ''XYZ'' = None \<and>
   device_class the_rift = Rift_DK2 \<and> device_class the_camera = Camera_DK2 \<and>
   serial the_rift = None \<and> serial the_camera = None \<and>
   map tracker (ouvrtd_device_add (Some ''XYZ'') the_camera
     (ouvrtd_device_add (Some ''XYZ'') the_rift [third_device])) = [None, Some 1, Some 1] \<and>
   map tracker (ouvrtd_device_add (Some ''XYZ'') the_rift
     (ouvrtd_device_add (Some ''XYZ'') the_camera [third_device])) = [None, Some 1, Some 1]"
  using paired_devices_share_tracker [where reg = "[third_device]" and s = "''XYZ''"
      and hmd = the_rift and cam = the_camera]
  by (simp add: the_rift_def the_camera_def third_device_def)

end
